theory Spec2Isabelle
  imports Complex_Main "HOL-Library.Word"
begin

section \<open>The reflection analyzer of the shader cross-compiler\<close>

text \<open>
  This theory embeds \<^verbatim>\<open>ReflectionAnalyzer.cpp\<close>: the visitor that walks a decorated
  program tree and fills a \<^verbatim>\<open>Reflection::ReflectionData\<close> object. Member variables of
  the analyzer (written \<^verbatim>\<open>shaderTarget_\<close>, \<^verbatim>\<open>data_\<close>, ... in the source) carry a prime
  here, since a HOL name cannot end with an underscore. Record fields that several
  C++ structs share (\<^verbatim>\<open>ident\<close>, \<^verbatim>\<open>flags\<close>, \<^verbatim>\<open>semantic\<close>) get a short prefix naming
  their struct.

  A C++ \<^verbatim>\<open>int\<close> is a 32-bit word, read as signed by \<open>sint\<close>. A \<^verbatim>\<open>double\<close> held by a
  variant is the real number it denotes. A \<^verbatim>\<open>float\<close> is a value of the type \<open>c_float\<close>
  below, and \<^verbatim>\<open>static_cast<float>\<close> of a \<^verbatim>\<open>double\<close> is the function
  \<open>static_cast_float\<close>.
\<close>

type_synonym c_int = "32 word"

subsection \<open>Single-precision values\<close>

text \<open>
  A \<^verbatim>\<open>float\<close> (IEEE 754 binary32) is a finite value, given by the real number it
  denotes, or an infinity (\<open>True\<close> for the positive one). The sign of a zero is not
  represented, and there is no not-a-number since a conversion from a real never
  yields one. The zero of the type is the float \<open>0.0f\<close>.
\<close>

datatype c_float = Finite real | Infinity bool

instantiation c_float :: zero
begin

definition zero_c_float :: c_float where
  "zero_c_float = Finite 0"

instance ..

end

text \<open>\<open>pow2 k\<close> is the power of two with the integer exponent \<open>k\<close>.\<close>

definition pow2 :: "int \<Rightarrow> real" where
  "pow2 k = (if 0 \<le> k then 2 ^ nat k else 1 / 2 ^ nat (- k))"

text \<open>
  The binary exponent used for a magnitude \<open>ax\<close>: the largest \<open>k\<close> with
  \<open>- 126 \<le> k \<le> 127\<close> and \<open>pow2 k \<le> ax\<close>, and \<open>- 126\<close> (the exponent of the subnormal
  floats) when there is none. The search runs downwards from \<open>k = n - 126\<close>.
\<close>

primrec float_exponent_below :: "nat \<Rightarrow> real \<Rightarrow> int" where
  "float_exponent_below 0 ax = - 126"
| "float_exponent_below (Suc n) ax =
     (if pow2 (int (Suc n) - 126) \<le> ax then int (Suc n) - 126
      else float_exponent_below n ax)"

definition float_exponent :: "real \<Rightarrow> int" where
  "float_exponent ax = float_exponent_below 253 ax"

text \<open>Rounding a real to the nearest integer, a tie going to the even one.\<close>

definition round_to_nearest_even :: "real \<Rightarrow> int" where
  "round_to_nearest_even r =
     (let f = \<lfloor>r\<rfloor>; d = r - of_int f
      in if d < 1 / 2 then f
         else if 1 / 2 < d then f + 1
         else if even f then f else f + 1)"

text \<open>
  \<^verbatim>\<open>static_cast<float>(x)\<close> for a \<^verbatim>\<open>double\<close> \<open>x\<close>, in the default rounding mode: \<open>x\<close> is
  rounded to the nearest multiple of the unit in the last place of its binade (24
  significant bits, exponents from \<open>- 126\<close> to \<open>127\<close>), a tie going to the even
  significand; a result of magnitude \<open>2 ^ 128\<close> or more is the infinity of the sign of
  \<open>x\<close>.
\<close>

definition static_cast_float :: "real \<Rightarrow> c_float" where
  "static_cast_float x =
     (if x = 0 then Finite 0
      else
        (let e = float_exponent \<bar>x\<bar>;
             ulp = pow2 (e - 23);
             y = of_int (round_to_nearest_even (x / ulp)) * ulp
         in if pow2 128 \<le> \<bar>y\<bar> then Infinity (0 < x) else Finite y))"

subsection \<open>Tree nodes read by the analyzer\<close>

text \<open>
  Modelled from the spec: the enumeration \<^verbatim>\<open>ShaderTarget\<close> is declared in a public header
  that is not among the sources; the spec lists the pipeline stages.
\<close>

datatype ShaderTarget =
    Undefined
  | VertexShader
  | TessellationControlShader
  | TessellationEvaluationShader
  | GeometryShader
  | FragmentShader
  | ComputeShader

text \<open>
  Modelled from the spec: \<^verbatim>\<open>AST.h\<close> is not among the sources. Each node type below has
  the fields that \<^verbatim>\<open>ReflectionAnalyzer.cpp\<close> reads. A type denoter is known here only
  through \<^verbatim>\<open>IsVector()\<close>. Expression kinds the analyzer never casts to are collected
  in \<open>OtherExpr\<close>.
\<close>

datatype TypeDenoter = TypeDenoter (IsVector: bool)

datatype Expr =
    LiteralExpr string
  | ObjectExpr string
  | CallExpr "TypeDenoter option" "Expr list"
  | CastExpr Expr
  | InitializerExpr "Expr list"
  | OtherExpr "Expr list"

record Register =
  shaderTarget :: ShaderTarget
  slot :: c_int

text \<open>
  Modelled from the spec: an \<^verbatim>\<open>IndexedSemantic\<close> is observed through \<^verbatim>\<open>IsSystemValue()\<close>,
  \<^verbatim>\<open>ToString()\<close> and \<^verbatim>\<open>Index()\<close> only; the record holds what these three return.
\<close>

record IndexedSemantic =
  IsSystemValue :: bool
  ToString :: string
  Index :: c_int

record VarDecl =
  vd_ident :: string
  vd_semantic :: IndexedSemantic

record ParameterSemantics =
  varDeclRefs :: "VarDecl list"
  varDeclRefsSV :: "VarDecl list"

record SamplerValue =
  sv_name :: string
  sv_value :: Expr

record SamplerDecl =
  sd_ident :: string
  sd_isReachable :: bool
  samplerValues :: "SamplerValue list"

record UniformBufferDecl =
  ub_ident :: string
  ub_isReachable :: bool
  ub_slotRegisters :: "Register list"

record BufferDecl =
  bd_ident :: string
  bd_isReachable :: bool
  bd_slotRegisters :: "Register list"

text \<open>The field \<open>bufferType\<close> stands for \<^verbatim>\<open>typeDenoter->bufferType\<close> of the statement.\<close>

record 'b BufferDeclStmnt =
  bds_isReachable :: bool
  bufferType :: 'b
  bufferDecls :: "BufferDecl list"

datatype AttributeType = NumThreads | OtherAttributeType

record Attribute =
  attributeType :: AttributeType
  arguments :: "Expr list"

record FunctionDecl =
  isEntryPoint :: bool
  attribs :: "Attribute list"
  fd_semantic :: IndexedSemantic
  inputSemantics :: ParameterSemantics
  outputSemantics :: ParameterSemantics

text \<open>
  A tree node is one of the four kinds whose visit the analyzer overrides, or any other
  kind (\<open>AST_Other\<close>), for which the default visitor only descends into the children.
  The children of a function declaration are what the default
  \<^verbatim>\<open>Visitor::VisitFunctionDecl\<close> visits (return type, parameters, code block).
\<close>

datatype 'b AST =
    AST_FunctionDecl FunctionDecl "'b AST list"
  | AST_UniformBufferDecl UniformBufferDecl
  | AST_BufferDeclStmnt "'b BufferDeclStmnt"
  | AST_SamplerDecl SamplerDecl
  | AST_Other "'b AST list"

record 'b Program =
  globalStmnts :: "'b AST list"
  disabledAST :: "'b AST list"
  entryPointRef :: "FunctionDecl option"

subsection \<open>The reflection output\<close>

text \<open>
  Modelled from the spec: \<^verbatim>\<open>Reflection.h\<close> is not among the sources. The three
  enumerations of a sampler state are type parameters \<open>'f\<close> (filter), \<open>'m\<close> (texture
  address mode) and \<open>'c\<close> (comparison function). The field \<^verbatim>\<open>filter\<close> is written
  \<open>filter_s\<close>. The border colour is an array of four floats.
  Of the reflection data, the fields that the analyzer writes are kept.
\<close>

record ('f, 'm, 'c) SamplerState =
  filter_s :: 'f
  addressU :: 'm
  addressV :: 'm
  addressW :: 'm
  mipLODBias :: c_float
  maxAnisotropy :: "32 word"
  comparisonFunc :: 'c
  borderColor :: "c_float list"
  minLOD :: c_float
  maxLOD :: c_float

record BindingSlot =
  ident :: string
  location :: c_int

record NumThreads =
  nt_x :: c_int
  nt_y :: c_int
  nt_z :: c_int

record ('f, 'm, 'c) ReflectionData =
  inputAttributes :: "BindingSlot list"
  outputAttributes :: "BindingSlot list"
  constantBuffers :: "BindingSlot list"
  textures :: "BindingSlot list"
  storageBuffers :: "BindingSlot list"
  samplerStates :: "string \<rightharpoonup> ('f, 'm, 'c) SamplerState"
  numThreads :: NumThreads

subsection \<open>External collaborators\<close>

text \<open>
  Modelled from the spec: \<^verbatim>\<open>Variant.h\<close> is not among the sources. A variant is the
  tagged result of constant folding; the default-constructed variant is \<open>VNone\<close>, and
  its numeric accessors return zero on it. A real is truncated towards zero when read
  as an integer.
\<close>

datatype Variant = VNone | VBool bool | VInt int | VReal real | VString string

fun ToInt :: "Variant \<Rightarrow> int" where
  "ToInt (VBool b) = (if b then 1 else 0)"
| "ToInt (VInt i) = i"
| "ToInt (VReal r) = (if 0 \<le> r then \<lfloor>r\<rfloor> else \<lceil>r\<rceil>)"
| "ToInt (VString s) = 0"
| "ToInt VNone = 0"

fun ToReal :: "Variant \<Rightarrow> real" where
  "ToReal (VBool b) = (if b then 1 else 0)"
| "ToReal (VInt i) = of_int i"
| "ToReal (VReal r) = r"
| "ToReal (VString s) = 0"
| "ToReal VNone = 0"

text \<open>
  What a call of the evaluator can throw: a \<^verbatim>\<open>std::exception\<close> raised by its own
  checks, or the object expression that the callback of \<^verbatim>\<open>EvaluateConstExpr\<close> throws.
\<close>

datatype thrown = StdException string | ThrownObjectExpr Expr

text \<open>
  Report messages. The macros of \<^verbatim>\<open>ReportIdents.h\<close> and the message of the
  \<^verbatim>\<open>std::invalid_argument\<close> raised by the string-to-enumeration functions are not among
  the sources: a message is kept as the macro applied to its arguments, and
  \<open>InvalidArgument v\<close> is the \<^verbatim>\<open>what()\<close> of the exception raised for the string \<open>v\<close>.
\<close>

datatype report_ident = R_InvalidTypeOrArgCount | R_InvalidArgCount

datatype report_msg =
    InvalidArgument string
  | R_FailedToInitializeSamplerValue report_ident string

text \<open>
  The functions of other translation units that the analyzer calls, as parameters:
  the constant-expression evaluator (given the expression and the callback for object
  expressions), \<^verbatim>\<open>FromString<float>\<close> and \<^verbatim>\<open>FromString<unsigned int>\<close>, the three
  string-to-enumeration functions (\<open>None\<close> where they throw \<^verbatim>\<open>std::invalid_argument\<close>),
  \<^verbatim>\<open>IsTextureBufferType\<close>, and the default-constructed sampler state.
\<close>

record ('f, 'm, 'c, 'b) externals =
  EvaluateExpr :: "Expr \<Rightarrow> (Expr \<Rightarrow> thrown + Variant) \<Rightarrow> thrown + Variant"
  FromString_float :: "string \<Rightarrow> c_float"
  FromString_uint :: "string \<Rightarrow> 32 word"
  StringToFilter :: "string \<Rightarrow> 'f option"
  StringToTexAddressMode :: "string \<Rightarrow> 'm option"
  StringToCompareFunc :: "string \<Rightarrow> 'c option"
  IsTextureBufferType :: "'b \<Rightarrow> bool"
  SamplerState_default :: "('f, 'm, 'c) SamplerState"

text \<open>
  Modelled from the spec: \<^verbatim>\<open>Register::GetForTarget\<close> is not among the sources. It
  returns the register assignment of the list that matches the shader target (the
  first one, in list order), or null.
\<close>

definition GetForTarget :: "Register list \<Rightarrow> ShaderTarget \<Rightarrow> Register option" where
  "GetForTarget slotRegisters target = find (\<lambda>r. shaderTarget r = target) slotRegisters"

subsection \<open>The analyzer\<close>

text \<open>
  The analyzer object: its member variables. \<open>data'\<close> is the reflection data object
  that \<^verbatim>\<open>data_\<close> points to; \<open>reportHandler'\<close> is the report sink, kept as the list of
  warnings submitted so far (source code handle and source area are not recorded).
\<close>

record ('f, 'm, 'c, 'b) ReflectionAnalyzer =
  shaderTarget' :: ShaderTarget
  program' :: "'b Program"
  data' :: "('f, 'm, 'c) ReflectionData"
  enableWarnings' :: bool
  reportHandler' :: "report_msg list"

definition Warning ::
  "report_msg \<Rightarrow> ('f, 'm, 'c, 'b) ReflectionAnalyzer \<Rightarrow> ('f, 'm, 'c, 'b) ReflectionAnalyzer" where
  "Warning msg a =
     (if enableWarnings' a then a\<lparr>reportHandler' := reportHandler' a @ [msg]\<rparr> else a)"

definition GetBindingPoint :: "('f, 'm, 'c, 'b) ReflectionAnalyzer \<Rightarrow> Register list \<Rightarrow> c_int" where
  "GetBindingPoint a slotRegisters =
     (case GetForTarget slotRegisters (shaderTarget' a) of
        Some slotRegister \<Rightarrow> slot slotRegister
      | None \<Rightarrow> - 1)"

definition EvaluateConstExpr :: "('f, 'm, 'c, 'b) externals \<Rightarrow> Expr \<Rightarrow> Variant" where
  "EvaluateConstExpr ext expr =
     (case EvaluateExpr ext expr (\<lambda>e. Inl (ThrownObjectExpr e)) of
        Inr v \<Rightarrow> v
      | Inl (StdException w) \<Rightarrow> VNone
      | Inl (ThrownObjectExpr e) \<Rightarrow> VNone)"

definition EvaluateConstExprInt :: "('f, 'm, 'c, 'b) externals \<Rightarrow> Expr \<Rightarrow> c_int" where
  "EvaluateConstExprInt ext expr = word_of_int (ToInt (EvaluateConstExpr ext expr))"

definition EvaluateConstExprFloat :: "('f, 'm, 'c, 'b) externals \<Rightarrow> Expr \<Rightarrow> c_float" where
  "EvaluateConstExprFloat ext expr = static_cast_float (ToReal (EvaluateConstExpr ext expr))"

subsection \<open>Reflecting one sampler value\<close>

text \<open>
  The three functions below take the field that the source passes by reference and
  return its value after the call. The assignment happens only when the
  string-to-enumeration function returns; when it throws, the handler submits the
  warning and the field keeps its value.
\<close>

definition ReflectSamplerValueFilter ::
  "('f, 'm, 'c, 'b) externals \<Rightarrow> string \<Rightarrow> 'f \<Rightarrow> ('f, 'm, 'c, 'b) ReflectionAnalyzer
    \<Rightarrow> 'f \<times> ('f, 'm, 'c, 'b) ReflectionAnalyzer" where
  "ReflectSamplerValueFilter ext v fltr a =
     (case StringToFilter ext v of
        Some f \<Rightarrow> (f, a)
      | None \<Rightarrow> (fltr, Warning (InvalidArgument v) a))"

definition ReflectSamplerValueTextureAddressMode ::
  "('f, 'm, 'c, 'b) externals \<Rightarrow> string \<Rightarrow> 'm \<Rightarrow> ('f, 'm, 'c, 'b) ReflectionAnalyzer
    \<Rightarrow> 'm \<times> ('f, 'm, 'c, 'b) ReflectionAnalyzer" where
  "ReflectSamplerValueTextureAddressMode ext v addressMode a =
     (case StringToTexAddressMode ext v of
        Some m \<Rightarrow> (m, a)
      | None \<Rightarrow> (addressMode, Warning (InvalidArgument v) a))"

definition ReflectSamplerValueComparisonFunc ::
  "('f, 'm, 'c, 'b) externals \<Rightarrow> string \<Rightarrow> 'c \<Rightarrow> ('f, 'm, 'c, 'b) ReflectionAnalyzer
    \<Rightarrow> 'c \<times> ('f, 'm, 'c, 'b) ReflectionAnalyzer" where
  "ReflectSamplerValueComparisonFunc ext v cmp a =
     (case StringToCompareFunc ext v of
        Some c \<Rightarrow> (c, a)
      | None \<Rightarrow> (cmp, Warning (InvalidArgument v) a))"

text \<open>
  The body of the \<^verbatim>\<open>try\<close> block of the \<^verbatim>\<open>BorderColor\<close> branch: \<open>Inl s\<close> is
  \<^verbatim>\<open>throw std::string(s)\<close>, \<open>Inr\<close> the sampler state when the block ends normally. Each
  loop writes all four elements of the array, so the array afterwards is the list of the
  four values written.
\<close>

fun BorderColor_try ::
  "('f, 'm, 'c, 'b) externals \<Rightarrow> Expr \<Rightarrow> ('f, 'm, 'c) SamplerState
    \<Rightarrow> report_ident + ('f, 'm, 'c) SamplerState" where
  "BorderColor_try ext (CallExpr typeDenoter args) samplerState =
     (if (case typeDenoter of None \<Rightarrow> False | Some t \<Rightarrow> IsVector t) \<and> length args = 4
      then Inr (samplerState\<lparr>borderColor :=
             [EvaluateConstExprFloat ext (args ! 0), EvaluateConstExprFloat ext (args ! 1),
              EvaluateConstExprFloat ext (args ! 2), EvaluateConstExprFloat ext (args ! 3)]\<rparr>)
      else Inl R_InvalidTypeOrArgCount)"
| "BorderColor_try ext (CastExpr expr) samplerState =
     (let subValueSrc = EvaluateConstExprFloat ext expr
      in Inr (samplerState\<lparr>borderColor := [subValueSrc, subValueSrc, subValueSrc, subValueSrc]\<rparr>))"
| "BorderColor_try ext (InitializerExpr exprs) samplerState =
     (if length exprs = 4
      then Inr (samplerState\<lparr>borderColor :=
             [EvaluateConstExprFloat ext (exprs ! 0), EvaluateConstExprFloat ext (exprs ! 1),
              EvaluateConstExprFloat ext (exprs ! 2), EvaluateConstExprFloat ext (exprs ! 3)]\<rparr>)
      else Inl R_InvalidArgCount)"
| "BorderColor_try ext (LiteralExpr v) samplerState = Inr samplerState"
| "BorderColor_try ext (ObjectExpr v) samplerState = Inr samplerState"
| "BorderColor_try ext (OtherExpr es) samplerState = Inr samplerState"

definition ReflectSamplerValue ::
  "('f, 'm, 'c, 'b) externals \<Rightarrow> SamplerValue
    \<Rightarrow> ('f, 'm, 'c) SamplerState \<times> ('f, 'm, 'c, 'b) ReflectionAnalyzer
    \<Rightarrow> ('f, 'm, 'c) SamplerState \<times> ('f, 'm, 'c, 'b) ReflectionAnalyzer" where
  "ReflectSamplerValue ext ast sa =
     (let samplerState = fst sa; a = snd sa; name = sv_name ast
      in case sv_value ast of
           LiteralExpr v \<Rightarrow>
             (if name = ''MipLODBias'' then (samplerState\<lparr>mipLODBias := FromString_float ext v\<rparr>, a)
              else if name = ''MaxAnisotropy'' then (samplerState\<lparr>maxAnisotropy := FromString_uint ext v\<rparr>, a)
              else if name = ''MinLOD'' then (samplerState\<lparr>minLOD := FromString_float ext v\<rparr>, a)
              else if name = ''MaxLOD'' then (samplerState\<lparr>maxLOD := FromString_float ext v\<rparr>, a)
              else (samplerState, a))
         | ObjectExpr v \<Rightarrow>
             (if name = ''Filter'' then
                (let (f, a1) = ReflectSamplerValueFilter ext v (filter_s samplerState) a
                 in (samplerState\<lparr>filter_s := f\<rparr>, a1))
              else if name = ''AddressU'' then
                (let (m, a1) = ReflectSamplerValueTextureAddressMode ext v (addressU samplerState) a
                 in (samplerState\<lparr>addressU := m\<rparr>, a1))
              else if name = ''AddressV'' then
                (let (m, a1) = ReflectSamplerValueTextureAddressMode ext v (addressV samplerState) a
                 in (samplerState\<lparr>addressV := m\<rparr>, a1))
              else if name = ''AddressW'' then
                (let (m, a1) = ReflectSamplerValueTextureAddressMode ext v (addressW samplerState) a
                 in (samplerState\<lparr>addressW := m\<rparr>, a1))
              else if name = ''ComparisonFunc'' then
                (let (c, a1) = ReflectSamplerValueComparisonFunc ext v (comparisonFunc samplerState) a
                 in (samplerState\<lparr>comparisonFunc := c\<rparr>, a1))
              else (samplerState, a))
         | e \<Rightarrow>
             (if name = ''BorderColor'' then
                (case BorderColor_try ext e samplerState of
                   Inr samplerState1 \<Rightarrow> (samplerState1, a)
                 | Inl s \<Rightarrow>
                     (samplerState, Warning (R_FailedToInitializeSamplerValue s ''BorderColor'') a))
              else (samplerState, a)))"

subsection \<open>Visit functions\<close>

definition VisitSamplerDecl ::
  "('f, 'm, 'c, 'b) externals \<Rightarrow> SamplerDecl \<Rightarrow> ('f, 'm, 'c, 'b) ReflectionAnalyzer
    \<Rightarrow> ('f, 'm, 'c, 'b) ReflectionAnalyzer" where
  "VisitSamplerDecl ext ast a =
     (let (samplerState, a1) =
            fold (ReflectSamplerValue ext) (samplerValues ast) (SamplerState_default ext, a)
      in a1\<lparr>data' := (data' a1)\<lparr>samplerStates :=
            (samplerStates (data' a1))(sd_ident ast \<mapsto> samplerState)\<rparr>\<rparr>)"

definition VisitUniformBufferDecl ::
  "UniformBufferDecl \<Rightarrow> ('f, 'm, 'c, 'b) ReflectionAnalyzer \<Rightarrow> ('f, 'm, 'c, 'b) ReflectionAnalyzer" where
  "VisitUniformBufferDecl ast a =
     (if ub_isReachable ast
      then a\<lparr>data' := (data' a)\<lparr>constantBuffers := constantBuffers (data' a) @
             [\<lparr>ident = ub_ident ast, location = GetBindingPoint a (ub_slotRegisters ast)\<rparr>]\<rparr>\<rparr>
      else a)"

text \<open>The body of the loop over the buffer declarations of a statement.\<close>

definition ReflectBufferDecl ::
  "('f, 'm, 'c, 'b) externals \<Rightarrow> 'b BufferDeclStmnt \<Rightarrow> BufferDecl
    \<Rightarrow> ('f, 'm, 'c, 'b) ReflectionAnalyzer \<Rightarrow> ('f, 'm, 'c, 'b) ReflectionAnalyzer" where
  "ReflectBufferDecl ext ast bufferDecl a =
     (if bd_isReachable bufferDecl
      then (let bindingSlot = \<lparr>ident = bd_ident bufferDecl,
                               location = GetBindingPoint a (bd_slotRegisters bufferDecl)\<rparr>
            in if IsTextureBufferType ext (bufferType ast)
               then a\<lparr>data' := (data' a)\<lparr>textures := textures (data' a) @ [bindingSlot]\<rparr>\<rparr>
               else a\<lparr>data' := (data' a)\<lparr>storageBuffers := storageBuffers (data' a) @ [bindingSlot]\<rparr>\<rparr>)
      else a)"

definition VisitBufferDeclStmnt ::
  "('f, 'm, 'c, 'b) externals \<Rightarrow> 'b BufferDeclStmnt \<Rightarrow> ('f, 'm, 'c, 'b) ReflectionAnalyzer
    \<Rightarrow> ('f, 'm, 'c, 'b) ReflectionAnalyzer" where
  "VisitBufferDeclStmnt ext ast a =
     (if bds_isReachable ast then fold (ReflectBufferDecl ext ast) (bufferDecls ast) a else a)"

definition ReflectAttributesNumThreads ::
  "('f, 'm, 'c, 'b) externals \<Rightarrow> Attribute \<Rightarrow> ('f, 'm, 'c, 'b) ReflectionAnalyzer
    \<Rightarrow> ('f, 'm, 'c, 'b) ReflectionAnalyzer" where
  "ReflectAttributesNumThreads ext ast a =
     (if shaderTarget' a = ComputeShader \<and> length (arguments ast) = 3
      then a\<lparr>data' := (data' a)\<lparr>numThreads := (numThreads (data' a))
             \<lparr>nt_x := EvaluateConstExprInt ext (arguments ast ! 0),
              nt_y := EvaluateConstExprInt ext (arguments ast ! 1),
              nt_z := EvaluateConstExprInt ext (arguments ast ! 2)\<rparr>\<rparr>\<rparr>
      else a)"

definition ReflectAttributes ::
  "('f, 'm, 'c, 'b) externals \<Rightarrow> Attribute list \<Rightarrow> ('f, 'm, 'c, 'b) ReflectionAnalyzer
    \<Rightarrow> ('f, 'm, 'c, 'b) ReflectionAnalyzer" where
  "ReflectAttributes ext attrs a =
     fold (\<lambda>attr a. case attributeType attr of
                       NumThreads \<Rightarrow> ReflectAttributesNumThreads ext attr a
                     | OtherAttributeType \<Rightarrow> a) attrs a"

text \<open>
  Modelled from the spec: \<^verbatim>\<open>Visitor.cpp\<close> is not among the sources. The default visit
  of a node visits its children depth-first, in source order. The dispatch on the node
  kind and the four overriding visit functions are those of the analyzer.
\<close>

fun Visit ::
  "('f, 'm, 'c, 'b) externals \<Rightarrow> 'b AST \<Rightarrow> ('f, 'm, 'c, 'b) ReflectionAnalyzer
    \<Rightarrow> ('f, 'm, 'c, 'b) ReflectionAnalyzer" where
  "Visit ext (AST_FunctionDecl ast children) a =
     fold (Visit ext) children
       (if isEntryPoint ast then ReflectAttributes ext (attribs ast) a else a)"
| "Visit ext (AST_UniformBufferDecl ast) a = VisitUniformBufferDecl ast a"
| "Visit ext (AST_BufferDeclStmnt ast) a = VisitBufferDeclStmnt ext ast a"
| "Visit ext (AST_SamplerDecl ast) a = VisitSamplerDecl ext ast a"
| "Visit ext (AST_Other children) a = fold (Visit ext) children a"

definition push_back_input ::
  "BindingSlot \<Rightarrow> ('f, 'm, 'c) ReflectionData \<Rightarrow> ('f, 'm, 'c) ReflectionData" where
  "push_back_input b d = d\<lparr>inputAttributes := inputAttributes d @ [b]\<rparr>"

definition push_back_output ::
  "BindingSlot \<Rightarrow> ('f, 'm, 'c) ReflectionData \<Rightarrow> ('f, 'm, 'c) ReflectionData" where
  "push_back_output b d = d\<lparr>outputAttributes := outputAttributes d @ [b]\<rparr>"

definition VisitProgram ::
  "('f, 'm, 'c, 'b) externals \<Rightarrow> 'b Program \<Rightarrow> ('f, 'm, 'c, 'b) ReflectionAnalyzer
    \<Rightarrow> ('f, 'm, 'c, 'b) ReflectionAnalyzer" where
  "VisitProgram ext ast a =
     (let a1 = fold (Visit ext) (globalStmnts ast) a;
          a2 = fold (Visit ext) (disabledAST ast) a1
      in case entryPointRef ast of
           None \<Rightarrow> a2
         | Some entryPoint \<Rightarrow>
             (let d1 = fold (\<lambda>varDecl. push_back_input
                          \<lparr>ident = vd_ident varDecl, location = Index (vd_semantic varDecl)\<rparr>)
                        (varDeclRefs (inputSemantics entryPoint)) (data' a2);
                  d2 = fold (\<lambda>varDecl. push_back_input
                          \<lparr>ident = ToString (vd_semantic varDecl), location = Index (vd_semantic varDecl)\<rparr>)
                        (varDeclRefsSV (inputSemantics entryPoint)) d1;
                  d3 = fold (\<lambda>varDecl. push_back_output
                          \<lparr>ident = vd_ident varDecl, location = Index (vd_semantic varDecl)\<rparr>)
                        (varDeclRefs (outputSemantics entryPoint)) d2;
                  d4 = fold (\<lambda>varDecl. push_back_output
                          \<lparr>ident = ToString (vd_semantic varDecl), location = Index (vd_semantic varDecl)\<rparr>)
                        (varDeclRefsSV (outputSemantics entryPoint)) d3;
                  d5 = (if IsSystemValue (fd_semantic entryPoint)
                        then push_back_output
                               \<lparr>ident = ToString (fd_semantic entryPoint),
                                location = Index (fd_semantic entryPoint)\<rparr> d4
                        else d4)
              in a2\<lparr>data' := d5\<rparr>))"

text \<open>
  The public entry: copy the parameters into the members, then visit the program. The
  reflection data object is passed in by the caller and is not reset; the result is the
  analyzer after the call, whose \<open>data'\<close> is the caller's object after the call.
\<close>

definition Reflect ::
  "('f, 'm, 'c, 'b) externals \<Rightarrow> ('f, 'm, 'c, 'b) ReflectionAnalyzer \<Rightarrow> 'b Program \<Rightarrow> ShaderTarget
    \<Rightarrow> ('f, 'm, 'c) ReflectionData \<Rightarrow> bool \<Rightarrow> ('f, 'm, 'c, 'b) ReflectionAnalyzer" where
  "Reflect ext a program target reflectionData enableWarnings =
     VisitProgram ext program
       (a\<lparr>shaderTarget' := target, program' := program, data' := reflectionData,
          enableWarnings' := enableWarnings\<rparr>)"

text \<open>
  Modelled from the spec: the default-constructed \<^verbatim>\<open>ReflectionData\<close> has empty
  sequences, no sampler state, and \<^verbatim>\<open>numThreads\<close> \<open>{0,0,0}\<close>.
\<close>

definition ReflectionData_default :: "('f, 'm, 'c) ReflectionData" where
  "ReflectionData_default =
     \<lparr>inputAttributes = [], outputAttributes = [], constantBuffers = [], textures = [],
      storageBuffers = [], samplerStates = Map.empty,
      numThreads = \<lparr>nt_x = 0, nt_y = 0, nt_z = 0\<rparr>\<rparr>"

subsection \<open>A small instance of the external collaborators\<close>

text \<open>
  To run the analyzer on concrete trees, the parameters are instantiated: an evaluator
  that folds a few literals, hands every object expression to the callback and rejects
  everything else; enumerations as numbers; a buffer type that is a flag telling whether
  it is a texture kind.
\<close>

definition sample_literals :: "(string \<times> Variant) list" where
  "sample_literals =
     [(''0'', VInt 0), (''1'', VInt 1), (''8'', VInt 8), (''0.5'', VReal (1 / 2)),
      (''0.1'', VReal (1 / 10)), (''16777217'', VInt 16777217)]"

fun sample_EvaluateExpr :: "Expr \<Rightarrow> (Expr \<Rightarrow> thrown + Variant) \<Rightarrow> thrown + Variant" where
  "sample_EvaluateExpr (LiteralExpr v) cb =
     (case map_of sample_literals v of
        Some x \<Rightarrow> Inr x
      | None \<Rightarrow> Inl (StdException ''illegal literal''))"
| "sample_EvaluateExpr (ObjectExpr v) cb = cb (ObjectExpr v)"
| "sample_EvaluateExpr e cb = Inl (StdException ''illegal expression'')"

definition sample_SamplerState :: "(nat, nat, nat) SamplerState" where
  "sample_SamplerState =
     \<lparr>filter_s = 21, addressU = 3, addressV = 3, addressW = 3, mipLODBias = Finite 0,
      maxAnisotropy = 1, comparisonFunc = 1,
      borderColor = [Finite 0, Finite 0, Finite 0, Finite 0],
      minLOD = Finite 0, maxLOD = Finite 1000\<rparr>"

definition sample_externals :: "(nat, nat, nat, bool) externals" where
  "sample_externals =
     \<lparr>EvaluateExpr = sample_EvaluateExpr,
      FromString_float = (\<lambda>s. if s = ''0.5'' then Finite (1 / 2) else Finite 0),
      FromString_uint = (\<lambda>s. if s = ''8'' then 8 else 0),
      StringToFilter = map_of [(''MIN_MAG_MIP_POINT'', 0), (''MIN_MAG_MIP_LINEAR'', 21)],
      StringToTexAddressMode = map_of [(''WRAP'', 1), (''MIRROR'', 2), (''CLAMP'', 3)],
      StringToCompareFunc = map_of [(''NEVER'', 1), (''LESS'', 2)],
      IsTextureBufferType = (\<lambda>b. b),
      SamplerState_default = sample_SamplerState\<rparr>"

definition sample_Program :: "bool Program" where
  "sample_Program = \<lparr>globalStmnts = [], disabledAST = [], entryPointRef = None\<rparr>"

definition sample_analyzer :: "(nat, nat, nat, bool) ReflectionAnalyzer" where
  "sample_analyzer =
     \<lparr>shaderTarget' = Undefined, program' = sample_Program, data' = ReflectionData_default,
      enableWarnings' = False, reportHandler' = []\<rparr>"

subsection \<open>Auxiliary notions for the proofs\<close>

text \<open>Two analyzer states agree when they hold the same shader target and the same data.\<close>

definition agree ::
  "('f, 'm, 'c, 'b) ReflectionAnalyzer \<Rightarrow> ('f, 'm, 'c, 'b) ReflectionAnalyzer \<Rightarrow> bool" where
  "agree a b \<longleftrightarrow> shaderTarget' a = shaderTarget' b \<and> data' a = data' b"
subsection \<open>Sample trees\<close>

definition sample_numthreads :: Attribute where
  "sample_numthreads =
     \<lparr>attributeType = NumThreads,
      arguments = [LiteralExpr ''8'', LiteralExpr ''8'', LiteralExpr ''1'']\<rparr>"

definition sample_entryPoint :: FunctionDecl where
  "sample_entryPoint =
     \<lparr>isEntryPoint = True, attribs = [sample_numthreads],
      fd_semantic = \<lparr>IsSystemValue = True, ToString = ''SV_Target'', Index = 0\<rparr>,
      inputSemantics =
        \<lparr>varDeclRefs =
           [\<lparr>vd_ident = ''coord'',
             vd_semantic = \<lparr>IsSystemValue = False, ToString = ''TEXCOORD'', Index = 2\<rparr>\<rparr>],
         varDeclRefsSV =
           [\<lparr>vd_ident = ''id'',
             vd_semantic = \<lparr>IsSystemValue = True, ToString = ''SV_VertexID'', Index = 0\<rparr>\<rparr>]\<rparr>,
      outputSemantics =
        \<lparr>varDeclRefs =
           [\<lparr>vd_ident = ''color'',
             vd_semantic = \<lparr>IsSystemValue = False, ToString = ''COLOR'', Index = 1\<rparr>\<rparr>],
         varDeclRefsSV = []\<rparr>\<rparr>"

definition sample_compute :: "bool Program" where
  "sample_compute =
     \<lparr>globalStmnts = [AST_FunctionDecl sample_entryPoint []], disabledAST = [],
      entryPointRef = Some sample_entryPoint\<rparr>"

definition sample_registers :: "Register list" where
  "sample_registers =
     [\<lparr>shaderTarget = VertexShader, slot = 3\<rparr>, \<lparr>shaderTarget = FragmentShader, slot = 5\<rparr>,
      \<lparr>shaderTarget = FragmentShader, slot = 7\<rparr>]"

definition sample_cbuffer :: UniformBufferDecl where
  "sample_cbuffer =
     \<lparr>ub_ident = ''Scene'', ub_isReachable = True, ub_slotRegisters = sample_registers\<rparr>"

definition sample_dead_cbuffer :: UniformBufferDecl where
  "sample_dead_cbuffer =
     \<lparr>ub_ident = ''Unused'', ub_isReachable = False, ub_slotRegisters = sample_registers\<rparr>"

definition sample_textures :: "bool BufferDeclStmnt" where
  "sample_textures =
     \<lparr>bds_isReachable = True, bufferType = True,
      bufferDecls =
        [\<lparr>bd_ident = ''albedo'', bd_isReachable = True, bd_slotRegisters = sample_registers\<rparr>,
         \<lparr>bd_ident = ''unusedTex'', bd_isReachable = False, bd_slotRegisters = sample_registers\<rparr>,
         \<lparr>bd_ident = ''normals'', bd_isReachable = True, bd_slotRegisters = []\<rparr>]\<rparr>"

definition sample_storage :: "bool BufferDeclStmnt" where
  "sample_storage =
     \<lparr>bds_isReachable = True, bufferType = False,
      bufferDecls =
        [\<lparr>bd_ident = ''particles'', bd_isReachable = True, bd_slotRegisters = sample_registers\<rparr>]\<rparr>"

definition sample_dead_textures :: "bool BufferDeclStmnt" where
  "sample_dead_textures =
     \<lparr>bds_isReachable = False, bufferType = True,
      bufferDecls =
        [\<lparr>bd_ident = ''shadowMap'', bd_isReachable = True, bd_slotRegisters = sample_registers\<rparr>]\<rparr>"

definition sample_sampler :: SamplerDecl where
  "sample_sampler =
     \<lparr>sd_ident = ''linearSampler'', sd_isReachable = True,
      samplerValues =
        [\<lparr>sv_name = ''Filter'', sv_value = ObjectExpr ''NO_SUCH_FILTER''\<rparr>,
         \<lparr>sv_name = ''AddressU'', sv_value = ObjectExpr ''WRAP''\<rparr>,
         \<lparr>sv_name = ''BorderColor'',
          sv_value = InitializerExpr [LiteralExpr ''0'', LiteralExpr ''0'', LiteralExpr ''1'']\<rparr>]\<rparr>"

definition sample_dead_sampler :: SamplerDecl where
  "sample_dead_sampler =
     \<lparr>sd_ident = ''deadSampler'', sd_isReachable = False,
      samplerValues = [\<lparr>sv_name = ''Filter'', sv_value = ObjectExpr ''MIN_MAG_MIP_POINT''\<rparr>]\<rparr>"

definition sample_border_sampler :: SamplerDecl where
  "sample_border_sampler =
     \<lparr>sd_ident = ''borderSampler'', sd_isReachable = True,
      samplerValues =
        [\<lparr>sv_name = ''BorderColor'',
          sv_value = OtherExpr [LiteralExpr ''1'', LiteralExpr ''0'']\<rparr>]\<rparr>"

definition sample_resources :: "bool Program" where
  "sample_resources =
     \<lparr>globalStmnts =
        [AST_UniformBufferDecl sample_cbuffer, AST_UniformBufferDecl sample_dead_cbuffer,
         AST_BufferDeclStmnt sample_textures, AST_BufferDeclStmnt sample_storage,
         AST_BufferDeclStmnt sample_dead_textures,
         AST_Other [AST_SamplerDecl sample_sampler]],
      disabledAST = [AST_Other [AST_SamplerDecl sample_dead_sampler]],
      entryPointRef = None\<rparr>"

definition sample_border_program :: "bool Program" where
  "sample_border_program =
     \<lparr>globalStmnts = [AST_Other [AST_SamplerDecl sample_border_sampler]], disabledAST = [],
      entryPointRef = None\<rparr>"

section \<open>Properties of the analyzer\<close>

subsection \<open>Auxiliary facts\<close>

lemmas sample_defs = sample_numthreads_def sample_entryPoint_def sample_compute_def
  sample_registers_def sample_cbuffer_def sample_dead_cbuffer_def sample_textures_def
  sample_storage_def sample_dead_textures_def sample_sampler_def sample_dead_sampler_def
  sample_border_sampler_def sample_resources_def sample_border_program_def
  sample_analyzer_def sample_Program_def sample_externals_def sample_literals_def
  sample_SamplerState_def ReflectionData_default_def

lemmas analyzer_defs = Reflect_def VisitProgram_def VisitSamplerDecl_def
  VisitUniformBufferDecl_def VisitBufferDeclStmnt_def ReflectBufferDecl_def
  ReflectAttributes_def ReflectAttributesNumThreads_def ReflectSamplerValue_def
  ReflectSamplerValueFilter_def ReflectSamplerValueTextureAddressMode_def
  ReflectSamplerValueComparisonFunc_def Warning_def GetBindingPoint_def GetForTarget_def
  EvaluateConstExprInt_def EvaluateConstExprFloat_def EvaluateConstExpr_def
  push_back_input_def push_back_output_def Let_def

text \<open>
  The exponent search finds the binade of a magnitude: for
  \<open>2\<^sup>k \<le> ax < 2\<^sup>k\<^sup>+\<^sup>1\<close> with \<open>k\<close> between \<open>- 126\<close> and \<open>127\<close> it returns \<open>k\<close>, and
  below \<open>2\<^sup>-\<^sup>1\<^sup>2\<^sup>6\<close> it returns \<open>- 126\<close>.
\<close>

lemma pow2_powr: "pow2 k = 2 powr (of_int k)"
  by (simp add: pow2_def powr_int)

lemma pow2_mono: "k \<le> l \<Longrightarrow> pow2 k \<le> pow2 l"
  by (simp add: pow2_powr)

lemma float_exponent_below_binade:
  assumes "pow2 k \<le> ax" and "ax < pow2 (k + 1)" and "- 126 \<le> k" and "k \<le> int n - 126"
  shows "float_exponent_below n ax = k"
  using assms(4)
proof (induction n)
  case 0
  with assms(3) show ?case by simp
next
  case (Suc n)
  show ?case
  proof (cases "k = int (Suc n) - 126")
    case True
    with assms(1) show ?thesis by simp
  next
    case False
    with Suc.prems have le: "k + 1 \<le> int (Suc n) - 126" by simp
    have "ax < pow2 (int (Suc n) - 126)"
      using assms(2) pow2_mono [OF le] by linarith
    moreover have "k \<le> int n - 126" using le by simp
    ultimately show ?thesis using Suc.IH by simp
  qed
qed

lemma float_exponent_binade:
  assumes "pow2 k \<le> ax" and "ax < pow2 (k + 1)" and "- 126 \<le> k" and "k \<le> 127"
  shows "float_exponent ax = k"
  unfolding float_exponent_def
  using assms by (intro float_exponent_below_binade) simp_all

lemma float_exponent_subnormal:
  assumes "ax < pow2 (- 126)"
  shows "float_exponent ax = - 126"
proof -
  have "float_exponent_below n ax = - 126" for n
  proof (induction n)
    case 0
    show ?case by simp
  next
    case (Suc n)
    have "ax < pow2 (int (Suc n) - 126)"
      using assms pow2_mono [of "- 126" "int (Suc n) - 126"] by simp
    with Suc show ?case by simp
  qed
  then show ?thesis by (simp add: float_exponent_def)
qed

text \<open>
  The narrowing conversion on some values: zero, values that a float holds exactly, a
  tie (\<open>2 ^ 24 + 1\<close> lies halfway between two floats and goes to the even one), a
  decimal fraction, and magnitudes beyond the largest float and below the smallest.
\<close>

lemma static_cast_float_zero: "static_cast_float 0 = 0"
  by (simp add: static_cast_float_def zero_c_float_def)

lemma static_cast_float_exact:
  "static_cast_float 1 = Finite 1"
  "static_cast_float (1 / 2) = Finite (1 / 2)"
  "static_cast_float (- 3) = Finite (- 3)"
  by code_simp+

lemma static_cast_float_rounds:
  "static_cast_float 16777217 = Finite 16777216"
  "static_cast_float 16777219 = Finite 16777220"
  "static_cast_float (1 / 10) = Finite (13421773 / 134217728)"
  by code_simp+

lemma static_cast_float_range:
  "static_cast_float (10 ^ 39) = Infinity True"
  "static_cast_float (- (10 ^ 39)) = Infinity False"
  "static_cast_float (1 / 10 ^ 46) = Finite 0"
  by code_simp+


lemma Warning_simps:
  "data' (Warning m a) = data' a"
  "shaderTarget' (Warning m a) = shaderTarget' a"
  "enableWarnings' (Warning m a) = enableWarnings' a"
  "program' (Warning m a) = program' a"
  "reportHandler' (Warning m a) = reportHandler' a @ (if enableWarnings' a then [m] else [])"
  by (simp_all add: Warning_def)

lemma Warning_disabled: "\<not> enableWarnings' a \<Longrightarrow> Warning m a = a"
  by (simp add: Warning_def)

lemma fold_invariant:
  assumes "P a" and "\<And>x b. x \<in> set xs \<Longrightarrow> P b \<Longrightarrow> P (f x b)"
  shows "P (fold f xs a)"
  using assms by (induction xs arbitrary: a) auto

lemma fold_related:
  assumes "R a b" and "\<And>x a b. x \<in> set xs \<Longrightarrow> R a b \<Longrightarrow> R (f x a) (g x b)"
  shows "R (fold f xs a) (fold g xs b)"
  using assms by (induction xs arbitrary: a b) auto

lemma ReflectSamplerValue_frame:
  "data' (snd (ReflectSamplerValue ext v (st, a))) = data' a"
  "shaderTarget' (snd (ReflectSamplerValue ext v (st, a))) = shaderTarget' a"
  "enableWarnings' (snd (ReflectSamplerValue ext v (st, a))) = enableWarnings' a"
  "program' (snd (ReflectSamplerValue ext v (st, a))) = program' a"
  by (auto simp: ReflectSamplerValue_def Let_def Warning_simps ReflectSamplerValueFilter_def
      ReflectSamplerValueTextureAddressMode_def ReflectSamplerValueComparisonFunc_def
      split: Expr.splits option.splits sum.splits)

lemma ReflectSamplerValue_disabled:
  "\<not> enableWarnings' a \<Longrightarrow> snd (ReflectSamplerValue ext v (st, a)) = a"
  by (auto simp: ReflectSamplerValue_def Let_def Warning_disabled ReflectSamplerValueFilter_def
      ReflectSamplerValueTextureAddressMode_def ReflectSamplerValueComparisonFunc_def
      split: Expr.splits option.splits sum.splits)

lemma ReflectSamplerValue_state:
  "fst (ReflectSamplerValue ext v (st, a)) = fst (ReflectSamplerValue ext v (st, b))"
  by (auto simp: ReflectSamplerValue_def Let_def ReflectSamplerValueFilter_def
      ReflectSamplerValueTextureAddressMode_def ReflectSamplerValueComparisonFunc_def
      split: Expr.splits option.splits sum.splits)

lemma fold_ReflectSamplerValue_frame:
  "data' (snd (fold (ReflectSamplerValue ext) vs (st, a))) = data' a \<and>
   shaderTarget' (snd (fold (ReflectSamplerValue ext) vs (st, a))) = shaderTarget' a \<and>
   enableWarnings' (snd (fold (ReflectSamplerValue ext) vs (st, a))) = enableWarnings' a \<and>
   program' (snd (fold (ReflectSamplerValue ext) vs (st, a))) = program' a"
proof (induction vs arbitrary: st a)
  case Nil
  show ?case by simp
next
  case (Cons v vs)
  obtain st1 a1 where step: "ReflectSamplerValue ext v (st, a) = (st1, a1)"
    by (cases "ReflectSamplerValue ext v (st, a)")
  have "a1 = snd (ReflectSamplerValue ext v (st, a))" using step by simp
  then have "data' a1 = data' a" "shaderTarget' a1 = shaderTarget' a"
    "enableWarnings' a1 = enableWarnings' a" "program' a1 = program' a"
    by (simp_all add: ReflectSamplerValue_frame)
  with Cons.IH [of st1 a1] step show ?case by simp
qed

lemma fold_ReflectSamplerValue_disabled:
  "\<not> enableWarnings' a \<Longrightarrow> snd (fold (ReflectSamplerValue ext) vs (st, a)) = a"
proof (induction vs arbitrary: st)
  case Nil
  show ?case by simp
next
  case (Cons v vs)
  obtain st1 a1 where step: "ReflectSamplerValue ext v (st, a) = (st1, a1)"
    by (cases "ReflectSamplerValue ext v (st, a)")
  have "a1 = snd (ReflectSamplerValue ext v (st, a))" using step by simp
  then have "a1 = a" using Cons.prems by (simp add: ReflectSamplerValue_disabled)
  with Cons step show ?case by simp
qed

lemma fold_ReflectSamplerValue_state:
  "fst (fold (ReflectSamplerValue ext) vs (st, a)) = fst (fold (ReflectSamplerValue ext) vs (st, b))"
proof (induction vs arbitrary: st a b)
  case Nil
  show ?case by simp
next
  case (Cons v vs)
  obtain st1 a1 where sa: "ReflectSamplerValue ext v (st, a) = (st1, a1)"
    by (cases "ReflectSamplerValue ext v (st, a)")
  obtain st2 b1 where sb: "ReflectSamplerValue ext v (st, b) = (st2, b1)"
    by (cases "ReflectSamplerValue ext v (st, b)")
  have "st1 = st2"
    using ReflectSamplerValue_state [of ext v st a b] sa sb by simp
  with Cons.IH [of st1 a1 b1] sa sb show ?case by simp
qed

lemma GetBindingPoint_target:
  "shaderTarget' a = shaderTarget' b \<Longrightarrow> GetBindingPoint a rs = GetBindingPoint b rs"
  by (simp add: GetBindingPoint_def)

lemma VisitSamplerDecl_frame:
  "shaderTarget' (VisitSamplerDecl ext ast a) = shaderTarget' a"
  "enableWarnings' (VisitSamplerDecl ext ast a) = enableWarnings' a"
  "program' (VisitSamplerDecl ext ast a) = program' a"
  using fold_ReflectSamplerValue_frame [of ext "samplerValues ast" "SamplerState_default ext" a]
  by (simp_all add: VisitSamplerDecl_def split_beta)

lemma VisitSamplerDecl_data:
  "data' (VisitSamplerDecl ext ast a) =
     (data' a)\<lparr>samplerStates := (samplerStates (data' a))
        (sd_ident ast \<mapsto> fst (fold (ReflectSamplerValue ext) (samplerValues ast) (SamplerState_default ext, a)))\<rparr>"
  using fold_ReflectSamplerValue_frame [of ext "samplerValues ast" "SamplerState_default ext" a]
  by (simp add: VisitSamplerDecl_def split_beta)

lemma VisitSamplerDecl_reports_disabled:
  "\<not> enableWarnings' a \<Longrightarrow> reportHandler' (VisitSamplerDecl ext ast a) = reportHandler' a"
  by (simp add: VisitSamplerDecl_def split_beta fold_ReflectSamplerValue_disabled)

lemma VisitUniformBufferDecl_frame:
  "shaderTarget' (VisitUniformBufferDecl ast a) = shaderTarget' a"
  "enableWarnings' (VisitUniformBufferDecl ast a) = enableWarnings' a"
  "program' (VisitUniformBufferDecl ast a) = program' a"
  "reportHandler' (VisitUniformBufferDecl ast a) = reportHandler' a"
  by (simp_all add: VisitUniformBufferDecl_def)

lemma ReflectBufferDecl_frame:
  "shaderTarget' (ReflectBufferDecl ext ast d a) = shaderTarget' a"
  "enableWarnings' (ReflectBufferDecl ext ast d a) = enableWarnings' a"
  "program' (ReflectBufferDecl ext ast d a) = program' a"
  "reportHandler' (ReflectBufferDecl ext ast d a) = reportHandler' a"
  by (simp_all add: ReflectBufferDecl_def Let_def)

lemma VisitBufferDeclStmnt_frame:
  "shaderTarget' (VisitBufferDeclStmnt ext ast a) = shaderTarget' a \<and>
   enableWarnings' (VisitBufferDeclStmnt ext ast a) = enableWarnings' a \<and>
   program' (VisitBufferDeclStmnt ext ast a) = program' a \<and>
   reportHandler' (VisitBufferDeclStmnt ext ast a) = reportHandler' a"
  unfolding VisitBufferDeclStmnt_def
  by (cases "bds_isReachable ast")
     (simp_all, rule fold_invariant, simp_all add: ReflectBufferDecl_frame)

lemma ReflectAttributesNumThreads_frame:
  "shaderTarget' (ReflectAttributesNumThreads ext ast a) = shaderTarget' a"
  "enableWarnings' (ReflectAttributesNumThreads ext ast a) = enableWarnings' a"
  "program' (ReflectAttributesNumThreads ext ast a) = program' a"
  "reportHandler' (ReflectAttributesNumThreads ext ast a) = reportHandler' a"
  by (simp_all add: ReflectAttributesNumThreads_def)

lemma ReflectAttributes_frame:
  "shaderTarget' (ReflectAttributes ext attrs a) = shaderTarget' a \<and>
   enableWarnings' (ReflectAttributes ext attrs a) = enableWarnings' a \<and>
   program' (ReflectAttributes ext attrs a) = program' a \<and>
   reportHandler' (ReflectAttributes ext attrs a) = reportHandler' a"
  unfolding ReflectAttributes_def
  by (rule fold_invariant) (simp_all add: ReflectAttributesNumThreads_frame split: AttributeType.splits)

lemma Visit_frame:
  "shaderTarget' (Visit ext n a) = shaderTarget' a \<and>
   enableWarnings' (Visit ext n a) = enableWarnings' a \<and>
   program' (Visit ext n a) = program' a"
proof (induction n arbitrary: a)
  case (AST_FunctionDecl fd children)
  let ?a0 = "if isEntryPoint fd then ReflectAttributes ext (attribs fd) a else a"
  have start: "shaderTarget' ?a0 = shaderTarget' a \<and> enableWarnings' ?a0 = enableWarnings' a \<and>
      program' ?a0 = program' a"
    using ReflectAttributes_frame [of ext "attribs fd" a] by simp
  have "shaderTarget' (fold (Visit ext) children ?a0) = shaderTarget' a \<and>
      enableWarnings' (fold (Visit ext) children ?a0) = enableWarnings' a \<and>
      program' (fold (Visit ext) children ?a0) = program' a"
    by (rule fold_invariant) (use start AST_FunctionDecl.IH in auto)
  then show ?case by simp
next
  case (AST_UniformBufferDecl ub)
  show ?case by (simp add: VisitUniformBufferDecl_frame)
next
  case (AST_BufferDeclStmnt s)
  show ?case using VisitBufferDeclStmnt_frame [of ext s a] by simp
next
  case (AST_SamplerDecl sd)
  show ?case by (simp add: VisitSamplerDecl_frame)
next
  case (AST_Other children)
  have "shaderTarget' (fold (Visit ext) children a) = shaderTarget' a \<and>
      enableWarnings' (fold (Visit ext) children a) = enableWarnings' a \<and>
      program' (fold (Visit ext) children a) = program' a"
    by (rule fold_invariant) (use AST_Other.IH in auto)
  then show ?case by simp
qed

lemma Visit_frame_simps:
  "shaderTarget' (Visit ext n a) = shaderTarget' a"
  "enableWarnings' (Visit ext n a) = enableWarnings' a"
  "program' (Visit ext n a) = program' a"
  using Visit_frame [of ext n a] by simp_all

lemma fold_ReflectBufferDecl_lists:
  "textures (data' (fold (ReflectBufferDecl ext ast) ds a)) =
     textures (data' a) @
       (if IsTextureBufferType ext (bufferType ast)
        then map (\<lambda>d. \<lparr>ident = bd_ident d, location = GetBindingPoint a (bd_slotRegisters d)\<rparr>)
               (filter bd_isReachable ds)
        else []) \<and>
   storageBuffers (data' (fold (ReflectBufferDecl ext ast) ds a)) =
     storageBuffers (data' a) @
       (if IsTextureBufferType ext (bufferType ast) then []
        else map (\<lambda>d. \<lparr>ident = bd_ident d, location = GetBindingPoint a (bd_slotRegisters d)\<rparr>)
               (filter bd_isReachable ds))"
proof (induction ds arbitrary: a)
  case Nil
  show ?case by simp
next
  case (Cons d ds)
  let ?a1 = "ReflectBufferDecl ext ast d a"
  have bp: "GetBindingPoint ?a1 = GetBindingPoint a"
    by (rule ext) (simp add: GetBindingPoint_def ReflectBufferDecl_frame)
  show ?case
    using Cons.IH [of ?a1]
    by (simp add: bp) (simp add: ReflectBufferDecl_def Let_def)
qed

lemma VisitBufferDeclStmnt_lists:
  "textures (data' (VisitBufferDeclStmnt ext ast a)) =
     textures (data' a) @
       (if bds_isReachable ast \<and> IsTextureBufferType ext (bufferType ast)
        then map (\<lambda>d. \<lparr>ident = bd_ident d, location = GetBindingPoint a (bd_slotRegisters d)\<rparr>)
               (filter bd_isReachable (bufferDecls ast))
        else [])"
  "storageBuffers (data' (VisitBufferDeclStmnt ext ast a)) =
     storageBuffers (data' a) @
       (if bds_isReachable ast \<and> \<not> IsTextureBufferType ext (bufferType ast)
        then map (\<lambda>d. \<lparr>ident = bd_ident d, location = GetBindingPoint a (bd_slotRegisters d)\<rparr>)
               (filter bd_isReachable (bufferDecls ast))
        else [])"
  using fold_ReflectBufferDecl_lists [of ext ast "bufferDecls ast" a]
  by (simp_all add: VisitBufferDeclStmnt_def)

subsection \<open>C9: no warning reaches the report sink when warnings are disabled\<close>

lemma Visit_reports_disabled:
  "\<not> enableWarnings' a \<Longrightarrow> reportHandler' (Visit ext n a) = reportHandler' a"
proof (induction n arbitrary: a)
  case (AST_FunctionDecl fd children)
  let ?a0 = "if isEntryPoint fd then ReflectAttributes ext (attribs fd) a else a"
  have start: "\<not> enableWarnings' ?a0 \<and> reportHandler' ?a0 = reportHandler' a"
    using ReflectAttributes_frame [of ext "attribs fd" a] AST_FunctionDecl.prems by simp
  have "\<not> enableWarnings' (fold (Visit ext) children ?a0) \<and>
      reportHandler' (fold (Visit ext) children ?a0) = reportHandler' a"
    by (rule fold_invariant) (use start AST_FunctionDecl.IH in \<open>auto simp: Visit_frame_simps\<close>)
  then show ?case by simp
next
  case (AST_UniformBufferDecl ub)
  show ?case by (simp add: VisitUniformBufferDecl_frame)
next
  case (AST_BufferDeclStmnt s)
  show ?case using VisitBufferDeclStmnt_frame [of ext s a] by simp
next
  case (AST_SamplerDecl sd)
  then show ?case by (simp add: VisitSamplerDecl_reports_disabled)
next
  case (AST_Other children)
  have "\<not> enableWarnings' (fold (Visit ext) children a) \<and>
      reportHandler' (fold (Visit ext) children a) = reportHandler' a"
    by (rule fold_invariant) (use AST_Other in \<open>auto simp: Visit_frame_simps\<close>)
  then show ?case by simp
qed

lemma fold_Visit_frame:
  "shaderTarget' (fold (Visit ext) ns a) = shaderTarget' a \<and>
   enableWarnings' (fold (Visit ext) ns a) = enableWarnings' a \<and>
   program' (fold (Visit ext) ns a) = program' a"
  by (rule fold_invariant) (simp_all add: Visit_frame_simps)

lemma fold_Visit_reports_disabled:
  assumes "\<not> enableWarnings' a"
  shows "reportHandler' (fold (Visit ext) ns a) = reportHandler' a"
proof -
  have "\<not> enableWarnings' (fold (Visit ext) ns a) \<and>
      reportHandler' (fold (Visit ext) ns a) = reportHandler' a"
    by (rule fold_invariant) (use assms in \<open>auto simp: Visit_frame_simps Visit_reports_disabled\<close>)
  then show ?thesis by simp
qed

lemma VisitProgram_reports:
  "reportHandler' (VisitProgram ext p a) =
     reportHandler' (fold (Visit ext) (disabledAST p) (fold (Visit ext) (globalStmnts p) a))"
  by (simp add: VisitProgram_def Let_def split: option.splits)

text \<open>
  C9. When \<open>Reflect\<close> is called with warnings disabled, the report sink after the call
  holds exactly the reports it held before: no warning path adds to it, for any program,
  target, data and analyzer state.
\<close>

theorem no_warnings_when_disabled:
  "reportHandler' (Reflect ext a p t d False) = reportHandler' a"
proof -
  let ?a0 = "a\<lparr>shaderTarget' := t, program' := p, data' := d, enableWarnings' := False\<rparr>"
  let ?a1 = "fold (Visit ext) (globalStmnts p) ?a0"
  have off0: "\<not> enableWarnings' ?a0" by simp
  have off1: "\<not> enableWarnings' ?a1" using fold_Visit_frame [of ext "globalStmnts p" ?a0] by simp
  have "reportHandler' (fold (Visit ext) (disabledAST p) ?a1) = reportHandler' ?a1"
    using off1 by (rule fold_Visit_reports_disabled)
  also have "\<dots> = reportHandler' ?a0"
    using off0 by (rule fold_Visit_reports_disabled)
  finally show ?thesis by (simp add: Reflect_def VisitProgram_reports)
qed


text \<open>
  On the sample resources the run with warnings enabled submits two warnings (the
  unknown filter and the three-element border colour); the run with warnings disabled
  submits none.
\<close>

theorem no_warnings_when_disabled_witness:
  "reportHandler' (Reflect sample_externals sample_analyzer sample_resources FragmentShader
      ReflectionData_default True) =
     [InvalidArgument ''NO_SUCH_FILTER'',
      R_FailedToInitializeSamplerValue R_InvalidArgCount ''BorderColor''] \<and>
   reportHandler' (Reflect sample_externals sample_analyzer sample_resources FragmentShader
      ReflectionData_default False) = []"
proof -
  have "reportHandler' (Reflect sample_externals sample_analyzer sample_resources FragmentShader
      ReflectionData_default True) =
     [InvalidArgument ''NO_SUCH_FILTER'',
      R_FailedToInitializeSamplerValue R_InvalidArgCount ''BorderColor'']"
    by (simp add: sample_defs analyzer_defs)
  moreover have "reportHandler' (Reflect sample_externals sample_analyzer sample_resources
      FragmentShader ReflectionData_default False) = []"
    using no_warnings_when_disabled [of sample_externals sample_analyzer sample_resources
        FragmentShader ReflectionData_default]
    by (simp add: sample_analyzer_def)
  ultimately show ?thesis by simp
qed

subsection \<open>C8: the reflection data is a function of the tree, the target and the data passed in\<close>

lemma agree_refl: "agree a a"
  by (simp add: agree_def)

lemma VisitUniformBufferDecl_agree:
  "agree a b \<Longrightarrow> agree (VisitUniformBufferDecl ast a) (VisitUniformBufferDecl ast b)"
  by (simp add: agree_def VisitUniformBufferDecl_def GetBindingPoint_def)

lemma ReflectBufferDecl_agree:
  "agree a b \<Longrightarrow> agree (ReflectBufferDecl ext ast d a) (ReflectBufferDecl ext ast d b)"
  by (simp add: agree_def ReflectBufferDecl_def GetBindingPoint_def Let_def)

lemma VisitBufferDeclStmnt_agree:
  assumes "agree a b"
  shows "agree (VisitBufferDeclStmnt ext ast a) (VisitBufferDeclStmnt ext ast b)"
proof (cases "bds_isReachable ast")
  case True
  have "agree (fold (ReflectBufferDecl ext ast) (bufferDecls ast) a)
              (fold (ReflectBufferDecl ext ast) (bufferDecls ast) b)"
    using assms by (rule fold_related) (rule ReflectBufferDecl_agree)
  with True show ?thesis by (simp add: VisitBufferDeclStmnt_def)
next
  case False
  with assms show ?thesis by (simp add: VisitBufferDeclStmnt_def)
qed

lemma ReflectAttributesNumThreads_agree:
  "agree a b \<Longrightarrow>
   agree (ReflectAttributesNumThreads ext ast a) (ReflectAttributesNumThreads ext ast b)"
  by (simp add: agree_def ReflectAttributesNumThreads_def)

lemma ReflectAttributes_agree:
  assumes "agree a b"
  shows "agree (ReflectAttributes ext attrs a) (ReflectAttributes ext attrs b)"
  unfolding ReflectAttributes_def using assms
proof (rule fold_related)
  fix x and a b :: "('a, 'b, 'c, 'd) ReflectionAnalyzer"
  assume "agree a b"
  then show "agree (case attributeType x of NumThreads \<Rightarrow> ReflectAttributesNumThreads ext x a
                     | OtherAttributeType \<Rightarrow> a)
                   (case attributeType x of NumThreads \<Rightarrow> ReflectAttributesNumThreads ext x b
                     | OtherAttributeType \<Rightarrow> b)"
    by (cases "attributeType x") (simp_all add: ReflectAttributesNumThreads_agree)
qed

lemma VisitSamplerDecl_agree:
  assumes "agree a b"
  shows "agree (VisitSamplerDecl ext ast a) (VisitSamplerDecl ext ast b)"
  using assms
    fold_ReflectSamplerValue_state [of ext "samplerValues ast" "SamplerState_default ext" a b]
  by (simp add: agree_def VisitSamplerDecl_frame VisitSamplerDecl_data)

lemma Visit_agree: "agree a b \<Longrightarrow> agree (Visit ext n a) (Visit ext n b)"
proof (induction n arbitrary: a b)
  case (AST_FunctionDecl fd children)
  let ?a0 = "if isEntryPoint fd then ReflectAttributes ext (attribs fd) a else a"
  let ?b0 = "if isEntryPoint fd then ReflectAttributes ext (attribs fd) b else b"
  have start: "agree ?a0 ?b0"
    using AST_FunctionDecl.prems by (simp add: ReflectAttributes_agree)
  have "agree (fold (Visit ext) children ?a0) (fold (Visit ext) children ?b0)"
    using start by (rule fold_related) (rule AST_FunctionDecl.IH)
  then show ?case by simp
next
  case (AST_UniformBufferDecl ub)
  then show ?case by (simp add: VisitUniformBufferDecl_agree)
next
  case (AST_BufferDeclStmnt s)
  then show ?case by (simp add: VisitBufferDeclStmnt_agree)
next
  case (AST_SamplerDecl sd)
  then show ?case by (simp add: VisitSamplerDecl_agree)
next
  case (AST_Other children)
  have "agree (fold (Visit ext) children a) (fold (Visit ext) children b)"
    using AST_Other.prems by (rule fold_related) (rule AST_Other.IH)
  then show ?case by simp
qed

lemma fold_Visit_agree:
  "agree a b \<Longrightarrow> agree (fold (Visit ext) ns a) (fold (Visit ext) ns b)"
  by (rule fold_related) (simp_all add: Visit_agree)

lemma VisitProgram_agree:
  assumes "agree a b"
  shows "data' (VisitProgram ext p a) = data' (VisitProgram ext p b)"
proof -
  have "agree (fold (Visit ext) (disabledAST p) (fold (Visit ext) (globalStmnts p) a))
              (fold (Visit ext) (disabledAST p) (fold (Visit ext) (globalStmnts p) b))"
    using assms by (intro fold_Visit_agree)
  then show ?thesis by (simp add: agree_def VisitProgram_def Let_def split: option.splits)
qed

text \<open>
  C8. Running \<open>Reflect\<close> with the same program tree, the same shader target and the
  same reflection data object yields the same reflection data, whatever state the
  analyzer object was left in by earlier runs and whatever the warning switch is. In
  particular a second run on the analyzer that the first run left behind reproduces the
  result of the first.
\<close>

theorem Reflect_deterministic:
  "data' (Reflect ext a p t d w) = data' (Reflect ext b p t d w') \<and>
   data' (Reflect ext (Reflect ext a p t d w) p t d w) = data' (Reflect ext a p t d w)"
  unfolding Reflect_def by (intro conjI VisitProgram_agree) (simp_all add: agree_def)

theorem Reflect_deterministic_witness:
  "data' (Reflect sample_externals sample_analyzer sample_resources FragmentShader
      ReflectionData_default True) =
   data' (Reflect sample_externals
      (Reflect sample_externals sample_analyzer sample_compute ComputeShader
         ReflectionData_default True)
      sample_resources FragmentShader ReflectionData_default False) \<and>
   data' (Reflect sample_externals
      (Reflect sample_externals sample_analyzer sample_resources FragmentShader
         ReflectionData_default True)
      sample_resources FragmentShader ReflectionData_default True) =
   data' (Reflect sample_externals sample_analyzer sample_resources FragmentShader
      ReflectionData_default True)"
  using Reflect_deterministic [of sample_externals sample_analyzer sample_resources
      FragmentShader ReflectionData_default True
      "Reflect sample_externals sample_analyzer sample_compute ComputeShader
         ReflectionData_default True" False]
  by simp

subsection \<open>C7: input and output attributes of the entry point\<close>

lemma ReflectBufferDecl_io:
  "inputAttributes (data' (ReflectBufferDecl ext ast d a)) = inputAttributes (data' a)"
  "outputAttributes (data' (ReflectBufferDecl ext ast d a)) = outputAttributes (data' a)"
  by (simp_all add: ReflectBufferDecl_def Let_def)

lemma VisitBufferDeclStmnt_io:
  "inputAttributes (data' (VisitBufferDeclStmnt ext ast a)) = inputAttributes (data' a) \<and>
   outputAttributes (data' (VisitBufferDeclStmnt ext ast a)) = outputAttributes (data' a)"
  unfolding VisitBufferDeclStmnt_def
  by (cases "bds_isReachable ast")
     (simp_all, rule fold_invariant, simp_all add: ReflectBufferDecl_io)

lemma ReflectAttributes_io:
  "inputAttributes (data' (ReflectAttributes ext attrs a)) = inputAttributes (data' a) \<and>
   outputAttributes (data' (ReflectAttributes ext attrs a)) = outputAttributes (data' a)"
  unfolding ReflectAttributes_def
  by (rule fold_invariant)
     (simp_all add: ReflectAttributesNumThreads_def split: AttributeType.splits)

lemma Visit_io:
  "inputAttributes (data' (Visit ext n a)) = inputAttributes (data' a) \<and>
   outputAttributes (data' (Visit ext n a)) = outputAttributes (data' a)"
proof (induction n arbitrary: a)
  case (AST_FunctionDecl fd children)
  let ?a0 = "if isEntryPoint fd then ReflectAttributes ext (attribs fd) a else a"
  have start: "inputAttributes (data' ?a0) = inputAttributes (data' a) \<and>
      outputAttributes (data' ?a0) = outputAttributes (data' a)"
    using ReflectAttributes_io [of ext "attribs fd" a] by simp
  have "inputAttributes (data' (fold (Visit ext) children ?a0)) = inputAttributes (data' a) \<and>
      outputAttributes (data' (fold (Visit ext) children ?a0)) = outputAttributes (data' a)"
    using start by (rule fold_invariant) (simp add: AST_FunctionDecl.IH)
  then show ?case by simp
next
  case (AST_UniformBufferDecl ub)
  show ?case by (simp add: VisitUniformBufferDecl_def)
next
  case (AST_BufferDeclStmnt s)
  show ?case using VisitBufferDeclStmnt_io [of ext s a] by simp
next
  case (AST_SamplerDecl sd)
  show ?case by (simp add: VisitSamplerDecl_data)
next
  case (AST_Other children)
  have "inputAttributes (data' (fold (Visit ext) children a)) = inputAttributes (data' a) \<and>
      outputAttributes (data' (fold (Visit ext) children a)) = outputAttributes (data' a)"
    by (rule fold_invariant) (simp_all add: AST_Other.IH)
  then show ?case by simp
qed

lemma fold_Visit_io:
  "inputAttributes (data' (fold (Visit ext) ns a)) = inputAttributes (data' a) \<and>
   outputAttributes (data' (fold (Visit ext) ns a)) = outputAttributes (data' a)"
  by (rule fold_invariant) (simp_all add: Visit_io)

lemma fold_push_back_input:
  "fold (\<lambda>v. push_back_input (g v)) vs d = d\<lparr>inputAttributes := inputAttributes d @ map g vs\<rparr>"
  by (induction vs arbitrary: d) (simp_all add: push_back_input_def)

lemma fold_push_back_output:
  "fold (\<lambda>v. push_back_output (g v)) vs d = d\<lparr>outputAttributes := outputAttributes d @ map g vs\<rparr>"
  by (induction vs arbitrary: d) (simp_all add: push_back_output_def)

text \<open>
  C7. With a resolved entry point, \<open>Reflect\<close> appends to \<open>inputAttributes\<close> one entry
  per ordinary input parameter (named by its identifier) and then one per system-value
  input parameter (named by its semantic), does the same for \<open>outputAttributes\<close>, and
  appends the semantic of the entry point itself to \<open>outputAttributes\<close> when it is a
  system value. Without an entry point both sequences are left as they were passed in
  (empty for a fresh reflection data object).
\<close>

theorem entry_point_attributes:
  "inputAttributes (data' (Reflect ext a p t d w)) =
     inputAttributes d @
       (case entryPointRef p of
          None \<Rightarrow> []
        | Some entryPoint \<Rightarrow>
            map (\<lambda>v. \<lparr>ident = vd_ident v, location = Index (vd_semantic v)\<rparr>)
              (varDeclRefs (inputSemantics entryPoint)) @
            map (\<lambda>v. \<lparr>ident = ToString (vd_semantic v), location = Index (vd_semantic v)\<rparr>)
              (varDeclRefsSV (inputSemantics entryPoint))) \<and>
   outputAttributes (data' (Reflect ext a p t d w)) =
     outputAttributes d @
       (case entryPointRef p of
          None \<Rightarrow> []
        | Some entryPoint \<Rightarrow>
            map (\<lambda>v. \<lparr>ident = vd_ident v, location = Index (vd_semantic v)\<rparr>)
              (varDeclRefs (outputSemantics entryPoint)) @
            map (\<lambda>v. \<lparr>ident = ToString (vd_semantic v), location = Index (vd_semantic v)\<rparr>)
              (varDeclRefsSV (outputSemantics entryPoint)) @
            (if IsSystemValue (fd_semantic entryPoint)
             then [\<lparr>ident = ToString (fd_semantic entryPoint), location = Index (fd_semantic entryPoint)\<rparr>]
             else []))"
proof -
  let ?a0 = "a\<lparr>shaderTarget' := t, program' := p, data' := d, enableWarnings' := w\<rparr>"
  let ?a2 = "fold (Visit ext) (disabledAST p) (fold (Visit ext) (globalStmnts p) ?a0)"
  have kept: "inputAttributes (data' ?a2) = inputAttributes d"
    "outputAttributes (data' ?a2) = outputAttributes d"
    using fold_Visit_io [of ext "disabledAST p" "fold (Visit ext) (globalStmnts p) ?a0"]
      fold_Visit_io [of ext "globalStmnts p" ?a0] by simp_all
  show ?thesis
  proof (cases "entryPointRef p")
    case None
    then show ?thesis by (simp add: Reflect_def VisitProgram_def Let_def kept)
  next
    case (Some entryPoint)
    then show ?thesis
      by (simp add: Reflect_def VisitProgram_def Let_def kept
          fold_push_back_input fold_push_back_output push_back_output_def)
  qed
qed

theorem entry_point_attributes_witness:
  "inputAttributes (data' (Reflect sample_externals sample_analyzer sample_compute ComputeShader
      ReflectionData_default True)) =
     [\<lparr>ident = ''coord'', location = 2\<rparr>, \<lparr>ident = ''SV_VertexID'', location = 0\<rparr>] \<and>
   outputAttributes (data' (Reflect sample_externals sample_analyzer sample_compute ComputeShader
      ReflectionData_default True)) =
     [\<lparr>ident = ''color'', location = 1\<rparr>, \<lparr>ident = ''SV_Target'', location = 0\<rparr>] \<and>
   inputAttributes (data' (Reflect sample_externals sample_analyzer sample_resources
      FragmentShader ReflectionData_default True)) = [] \<and>
   outputAttributes (data' (Reflect sample_externals sample_analyzer sample_resources
      FragmentShader ReflectionData_default True)) = []"
  using entry_point_attributes [of sample_externals sample_analyzer sample_compute ComputeShader
      ReflectionData_default True]
    entry_point_attributes [of sample_externals sample_analyzer sample_resources FragmentShader
      ReflectionData_default True]
  by (simp add: sample_compute_def sample_resources_def sample_entryPoint_def
      ReflectionData_default_def)

subsection \<open>C3: the constant folder catches every failure of the evaluator\<close>

text \<open>
  C3. When the evaluator fails on an expression, by a \<^verbatim>\<open>std::exception\<close> of its own checks
  or by the object expression thrown from the callback at a variable access,
  \<open>EvaluateConstExpr\<close> returns the empty variant, and the integer and floating-point
  wrappers return zero.
\<close>

theorem constant_folder_never_throws:
  assumes "EvaluateExpr ext expr (\<lambda>e. Inl (ThrownObjectExpr e)) = Inl t"
  shows "EvaluateConstExpr ext expr = VNone \<and>
         EvaluateConstExprInt ext expr = 0 \<and>
         EvaluateConstExprFloat ext expr = 0"
proof -
  have none: "EvaluateConstExpr ext expr = VNone"
    using assms by (cases t) (simp_all add: EvaluateConstExpr_def)
  then show ?thesis
    by (simp add: EvaluateConstExprInt_def EvaluateConstExprFloat_def static_cast_float_zero)
qed

theorem constant_folder_never_throws_witness:
  "EvaluateExpr sample_externals (ObjectExpr ''x'') (\<lambda>e. Inl (ThrownObjectExpr e)) =
     Inl (ThrownObjectExpr (ObjectExpr ''x'')) \<and>
   EvaluateExpr sample_externals (OtherExpr []) (\<lambda>e. Inl (ThrownObjectExpr e)) =
     Inl (StdException ''illegal expression'') \<and>
   EvaluateConstExpr sample_externals (ObjectExpr ''x'') = VNone \<and>
   EvaluateConstExprInt sample_externals (ObjectExpr ''x'') = 0 \<and>
   EvaluateConstExprFloat sample_externals (ObjectExpr ''x'') = 0 \<and>
   EvaluateConstExpr sample_externals (OtherExpr []) = VNone \<and>
   EvaluateConstExprInt sample_externals (OtherExpr []) = 0 \<and>
   EvaluateConstExprFloat sample_externals (OtherExpr []) = 0"
proof -
  have h1: "EvaluateExpr sample_externals (ObjectExpr ''x'') (\<lambda>e. Inl (ThrownObjectExpr e)) =
      Inl (ThrownObjectExpr (ObjectExpr ''x''))"
    by (simp add: sample_externals_def)
  have h2: "EvaluateExpr sample_externals (OtherExpr []) (\<lambda>e. Inl (ThrownObjectExpr e)) =
      Inl (StdException ''illegal expression'')"
    by (simp add: sample_externals_def)
  show ?thesis
    using h1 h2 constant_folder_never_throws [OF h1] constant_folder_never_throws [OF h2]
    by simp
qed

subsection \<open>C4: the thread-group size of the entry point\<close>

lemma ReflectAttributes_append:
  "ReflectAttributes ext (xs @ ys) a = ReflectAttributes ext ys (ReflectAttributes ext xs a)"
  by (simp add: ReflectAttributes_def)

lemma ReflectAttributes_Cons:
  "attributeType x = NumThreads \<Longrightarrow>
   ReflectAttributes ext (x # xs) a = ReflectAttributes ext xs (ReflectAttributesNumThreads ext x a)"
  by (simp add: ReflectAttributes_def)

lemma ReflectAttributes_no_NumThreads:
  "\<forall>x \<in> set xs. attributeType x \<noteq> NumThreads \<Longrightarrow> ReflectAttributes ext xs a = a"
  by (induction xs) (simp_all add: ReflectAttributes_def split: AttributeType.splits)

lemma NumThreads_all_updated:
  "(r :: NumThreads)\<lparr>nt_x := x, nt_y := y, nt_z := z\<rparr> = \<lparr>nt_x = x, nt_y = y, nt_z = z\<rparr>"
  by (cases r) simp

text \<open>
  C4. Let a function declaration carry one thread-group-size attribute among its
  attributes. If the function is flagged as entry point, the shader target is the
  compute stage and the attribute has exactly three arguments, \<open>numThreads\<close> is set to
  the three arguments folded to integers, in order, before the children of the function
  are visited. For any other target or argument count the attribute changes nothing:
  \<open>numThreads\<close> keeps its value (\<open>{0,0,0}\<close> in a fresh data object) and no warning is
  submitted. A function that is not flagged as entry point has its attributes ignored.
\<close>

theorem numThreads_of_entry_point:
  assumes "attribs fd = pre @ attr # post" and "attributeType attr = NumThreads"
    and "\<forall>x \<in> set (pre @ post). attributeType x \<noteq> NumThreads"
  shows "(isEntryPoint fd \<and> shaderTarget' a = ComputeShader \<and> arguments attr = [ex, ey, ez] \<longrightarrow>
            Visit ext (AST_FunctionDecl fd children) a =
              fold (Visit ext) children
                (a\<lparr>data' := (data' a)\<lparr>numThreads :=
                      \<lparr>nt_x = EvaluateConstExprInt ext ex,
                       nt_y = EvaluateConstExprInt ext ey,
                       nt_z = EvaluateConstExprInt ext ez\<rparr>\<rparr>\<rparr>)) \<and>
         (isEntryPoint fd \<and> (shaderTarget' a \<noteq> ComputeShader \<or> length (arguments attr) \<noteq> 3) \<longrightarrow>
            Visit ext (AST_FunctionDecl fd children) a = fold (Visit ext) children a) \<and>
         (shaderTarget' a \<noteq> ComputeShader \<or> length (arguments attr) \<noteq> 3 \<longrightarrow>
            ReflectAttributesNumThreads ext attr a = a) \<and>
         (\<not> isEntryPoint fd \<longrightarrow>
            Visit ext (AST_FunctionDecl fd children) a = fold (Visit ext) children a)"
proof -
  have others: "ReflectAttributes ext pre b = b" "ReflectAttributes ext post b = b" for b
    using assms(3) by (simp_all add: ReflectAttributes_no_NumThreads)
  have all: "ReflectAttributes ext (attribs fd) a = ReflectAttributesNumThreads ext attr a"
    using assms(1,2) others by (simp add: ReflectAttributes_append ReflectAttributes_Cons)
  show ?thesis
    using all
    by (auto simp: ReflectAttributesNumThreads_def NumThreads_all_updated)
qed

text \<open>
  The example of the spec: the attribute with arguments \<open>(8, 8, 1)\<close> gives
  \<open>numThreads = {8, 8, 1}\<close> on the compute target and leaves everything as it was on
  another target.
\<close>

theorem numThreads_of_entry_point_witness:
  "attribs sample_entryPoint = [] @ sample_numthreads # [] \<and>
   attributeType sample_numthreads = NumThreads \<and> isEntryPoint sample_entryPoint \<and>
   numThreads (data' (Visit sample_externals (AST_FunctionDecl sample_entryPoint [])
      (sample_analyzer\<lparr>shaderTarget' := ComputeShader\<rparr>))) = \<lparr>nt_x = 8, nt_y = 8, nt_z = 1\<rparr> \<and>
   Visit sample_externals (AST_FunctionDecl sample_entryPoint [])
      (sample_analyzer\<lparr>shaderTarget' := FragmentShader\<rparr>) =
     sample_analyzer\<lparr>shaderTarget' := FragmentShader\<rparr> \<and>
   numThreads (data' (Reflect sample_externals sample_analyzer sample_compute ComputeShader
      ReflectionData_default True)) = \<lparr>nt_x = 8, nt_y = 8, nt_z = 1\<rparr> \<and>
   numThreads (data' (Reflect sample_externals sample_analyzer sample_compute FragmentShader
      ReflectionData_default True)) = \<lparr>nt_x = 0, nt_y = 0, nt_z = 0\<rparr> \<and>
   reportHandler' (Reflect sample_externals sample_analyzer sample_compute FragmentShader
      ReflectionData_default True) = []"
proof -
  have whole: "numThreads (data' (Reflect sample_externals sample_analyzer sample_compute
      ComputeShader ReflectionData_default True)) = \<lparr>nt_x = 8, nt_y = 8, nt_z = 1\<rparr>"
    "numThreads (data' (Reflect sample_externals sample_analyzer sample_compute FragmentShader
      ReflectionData_default True)) = \<lparr>nt_x = 0, nt_y = 0, nt_z = 0\<rparr>"
    "reportHandler' (Reflect sample_externals sample_analyzer sample_compute FragmentShader
      ReflectionData_default True) = []"
    by (simp_all add: sample_defs analyzer_defs)
  have h: "attribs sample_entryPoint = [] @ sample_numthreads # []"
    "attributeType sample_numthreads = NumThreads"
    "\<forall>x \<in> set ([] @ []). attributeType x \<noteq> NumThreads"
    by (simp_all add: sample_entryPoint_def sample_numthreads_def)
  have e: "isEntryPoint sample_entryPoint"
    by (simp add: sample_entryPoint_def)
  have args: "arguments sample_numthreads = [LiteralExpr ''8'', LiteralExpr ''8'', LiteralExpr ''1'']"
    by (simp add: sample_numthreads_def)
  have folded: "EvaluateConstExprInt sample_externals (LiteralExpr ''8'') = 8"
    "EvaluateConstExprInt sample_externals (LiteralExpr ''1'') = 1"
    by (simp_all add: EvaluateConstExprInt_def EvaluateConstExpr_def sample_externals_def
        sample_literals_def)
  show ?thesis
    using h(1,2) e args folded whole
      numThreads_of_entry_point [OF h, of "sample_analyzer\<lparr>shaderTarget' := ComputeShader\<rparr>"
        "LiteralExpr ''8''" "LiteralExpr ''8''" "LiteralExpr ''1''" sample_externals "[]"]
      numThreads_of_entry_point [OF h, of "sample_analyzer\<lparr>shaderTarget' := FragmentShader\<rparr>"
        "LiteralExpr ''8''" "LiteralExpr ''8''" "LiteralExpr ''1''" sample_externals "[]"]
    by (simp del: Visit.simps)
qed

subsection \<open>C6: enumerated fields of a sampler state\<close>

text \<open>
  C6. For a sampler value whose expression is an identifier and whose name is one of
  \<^verbatim>\<open>Filter\<close>, \<^verbatim>\<open>AddressU\<close>, \<^verbatim>\<open>AddressV\<close>, \<^verbatim>\<open>AddressW\<close>, \<^verbatim>\<open>ComparisonFunc\<close>: a recognized
  identifier sets the field to the mapped enumeration value and submits nothing; an
  unrecognized identifier leaves the sampler state as it was and submits one warning
  that names the identifier, when warnings are enabled, and nothing otherwise.
\<close>

theorem enumerated_sampler_fields:
  assumes "sv_value v = ObjectExpr s"
  shows
    "(sv_name v = ''Filter'' \<longrightarrow>
        ReflectSamplerValue ext v (st, a) =
          (case StringToFilter ext s of
             Some f \<Rightarrow> (st\<lparr>filter_s := f\<rparr>, a)
           | None \<Rightarrow> (st, if enableWarnings' a
                            then a\<lparr>reportHandler' := reportHandler' a @ [InvalidArgument s]\<rparr>
                            else a))) \<and>
     (sv_name v = ''AddressU'' \<longrightarrow>
        ReflectSamplerValue ext v (st, a) =
          (case StringToTexAddressMode ext s of
             Some m \<Rightarrow> (st\<lparr>addressU := m\<rparr>, a)
           | None \<Rightarrow> (st, if enableWarnings' a
                            then a\<lparr>reportHandler' := reportHandler' a @ [InvalidArgument s]\<rparr>
                            else a))) \<and>
     (sv_name v = ''AddressV'' \<longrightarrow>
        ReflectSamplerValue ext v (st, a) =
          (case StringToTexAddressMode ext s of
             Some m \<Rightarrow> (st\<lparr>addressV := m\<rparr>, a)
           | None \<Rightarrow> (st, if enableWarnings' a
                            then a\<lparr>reportHandler' := reportHandler' a @ [InvalidArgument s]\<rparr>
                            else a))) \<and>
     (sv_name v = ''AddressW'' \<longrightarrow>
        ReflectSamplerValue ext v (st, a) =
          (case StringToTexAddressMode ext s of
             Some m \<Rightarrow> (st\<lparr>addressW := m\<rparr>, a)
           | None \<Rightarrow> (st, if enableWarnings' a
                            then a\<lparr>reportHandler' := reportHandler' a @ [InvalidArgument s]\<rparr>
                            else a))) \<and>
     (sv_name v = ''ComparisonFunc'' \<longrightarrow>
        ReflectSamplerValue ext v (st, a) =
          (case StringToCompareFunc ext s of
             Some c \<Rightarrow> (st\<lparr>comparisonFunc := c\<rparr>, a)
           | None \<Rightarrow> (st, if enableWarnings' a
                            then a\<lparr>reportHandler' := reportHandler' a @ [InvalidArgument s]\<rparr>
                            else a)))"
  using assms
  by (simp add: ReflectSamplerValue_def ReflectSamplerValueFilter_def
      ReflectSamplerValueTextureAddressMode_def ReflectSamplerValueComparisonFunc_def
      Warning_def Let_def split: option.splits)

text \<open>
  The example of the spec: a recognized filter name sets the filter; an unknown one
  leaves the state alone and, with warnings enabled, submits one warning naming it.
\<close>

theorem enumerated_sampler_fields_witness:
  "ReflectSamplerValue sample_externals
      \<lparr>sv_name = ''Filter'', sv_value = ObjectExpr ''MIN_MAG_MIP_POINT''\<rparr>
      (sample_SamplerState, sample_analyzer\<lparr>enableWarnings' := True\<rparr>) =
     (sample_SamplerState\<lparr>filter_s := 0\<rparr>, sample_analyzer\<lparr>enableWarnings' := True\<rparr>) \<and>
   ReflectSamplerValue sample_externals
      \<lparr>sv_name = ''Filter'', sv_value = ObjectExpr ''NO_SUCH_FILTER''\<rparr>
      (sample_SamplerState, sample_analyzer\<lparr>enableWarnings' := True\<rparr>) =
     (sample_SamplerState,
      sample_analyzer\<lparr>enableWarnings' := True,
         reportHandler' := [InvalidArgument ''NO_SUCH_FILTER'']\<rparr>) \<and>
   ReflectSamplerValue sample_externals
      \<lparr>sv_name = ''AddressW'', sv_value = ObjectExpr ''MIRROR''\<rparr>
      (sample_SamplerState, sample_analyzer) =
     (sample_SamplerState\<lparr>addressW := 2\<rparr>, sample_analyzer)"
  using
    enumerated_sampler_fields [of "\<lparr>sv_name = ''Filter'', sv_value = ObjectExpr ''MIN_MAG_MIP_POINT''\<rparr>"
      "''MIN_MAG_MIP_POINT''" sample_externals sample_SamplerState
      "sample_analyzer\<lparr>enableWarnings' := True\<rparr>"]
    enumerated_sampler_fields [of "\<lparr>sv_name = ''Filter'', sv_value = ObjectExpr ''NO_SUCH_FILTER''\<rparr>"
      "''NO_SUCH_FILTER''" sample_externals sample_SamplerState
      "sample_analyzer\<lparr>enableWarnings' := True\<rparr>"]
    enumerated_sampler_fields [of "\<lparr>sv_name = ''AddressW'', sv_value = ObjectExpr ''MIRROR''\<rparr>"
      "''MIRROR''" sample_externals sample_SamplerState sample_analyzer]
  by (simp add: sample_externals_def sample_analyzer_def)

subsection \<open>C2: the border colour of a sampler state\<close>

text \<open>
  C2, as amended. For a sampler value named \<^verbatim>\<open>BorderColor\<close>: a vector constructor call
  with four arguments folds each argument to a real, narrowed to a float; a cast
  expression folds its inner expression once and copies the result to all four
  components; an initializer list of four elements folds each element. A call that has no type, is not a vector or has not
  four arguments, and an initializer list that has not four elements, leave the sampler
  state as it was and submit one warning naming \<^verbatim>\<open>BorderColor\<close> when warnings are
  enabled. Every other expression shape is ignored: the sampler state and the analyzer
  are unchanged.
\<close>

theorem borderColor_shapes:
  assumes "sv_name v = ''BorderColor''"
  shows
    "(sv_value v = CallExpr (Some td) [e0, e1, e2, e3] \<and> IsVector td \<longrightarrow>
        ReflectSamplerValue ext v (st, a) =
          (st\<lparr>borderColor :=
               [EvaluateConstExprFloat ext e0, EvaluateConstExprFloat ext e1,
                EvaluateConstExprFloat ext e2, EvaluateConstExprFloat ext e3]\<rparr>, a)) \<and>
     (sv_value v = CastExpr e \<longrightarrow>
        ReflectSamplerValue ext v (st, a) =
          (st\<lparr>borderColor :=
               [EvaluateConstExprFloat ext e, EvaluateConstExprFloat ext e,
                EvaluateConstExprFloat ext e, EvaluateConstExprFloat ext e]\<rparr>, a)) \<and>
     (sv_value v = InitializerExpr [e0, e1, e2, e3] \<longrightarrow>
        ReflectSamplerValue ext v (st, a) =
          (st\<lparr>borderColor :=
               [EvaluateConstExprFloat ext e0, EvaluateConstExprFloat ext e1,
                EvaluateConstExprFloat ext e2, EvaluateConstExprFloat ext e3]\<rparr>, a)) \<and>
     (sv_value v = CallExpr tdo es \<and>
      (tdo = None \<or> (\<exists>t. tdo = Some t \<and> \<not> IsVector t) \<or> length es \<noteq> 4) \<longrightarrow>
        ReflectSamplerValue ext v (st, a) =
          (st, if enableWarnings' a
               then a\<lparr>reportHandler' := reportHandler' a @
                      [R_FailedToInitializeSamplerValue R_InvalidTypeOrArgCount ''BorderColor'']\<rparr>
               else a)) \<and>
     (sv_value v = InitializerExpr es \<and> length es \<noteq> 4 \<longrightarrow>
        ReflectSamplerValue ext v (st, a) =
          (st, if enableWarnings' a
               then a\<lparr>reportHandler' := reportHandler' a @
                      [R_FailedToInitializeSamplerValue R_InvalidArgCount ''BorderColor'']\<rparr>
               else a)) \<and>
     (sv_value v = LiteralExpr s \<or> sv_value v = ObjectExpr s \<or> sv_value v = OtherExpr es \<longrightarrow>
        ReflectSamplerValue ext v (st, a) = (st, a))"
  using assms
  by (auto simp: ReflectSamplerValue_def Warning_def Let_def)

text \<open>
  The examples of the spec: a constructor call with the literals \<open>(0, 0, 0, 1)\<close>, a cast
  of \<open>0.5\<close>, and a three-element initializer list. A cast of \<open>0.1\<close> and an initializer
  list holding \<open>16777217\<close> show the narrowing to single precision.
\<close>

theorem borderColor_shapes_witness:
  "ReflectSamplerValue sample_externals
      \<lparr>sv_name = ''BorderColor'',
       sv_value = CallExpr (Some (TypeDenoter True))
         [LiteralExpr ''0'', LiteralExpr ''0'', LiteralExpr ''0'', LiteralExpr ''1'']\<rparr>
      (sample_SamplerState, sample_analyzer) =
     (sample_SamplerState\<lparr>borderColor := [Finite 0, Finite 0, Finite 0, Finite 1]\<rparr>,
      sample_analyzer) \<and>
   ReflectSamplerValue sample_externals
      \<lparr>sv_name = ''BorderColor'', sv_value = CastExpr (LiteralExpr ''0.5'')\<rparr>
      (sample_SamplerState, sample_analyzer) =
     (sample_SamplerState
        \<lparr>borderColor := [Finite (1 / 2), Finite (1 / 2), Finite (1 / 2), Finite (1 / 2)]\<rparr>,
      sample_analyzer) \<and>
   ReflectSamplerValue sample_externals
      \<lparr>sv_name = ''BorderColor'', sv_value = CastExpr (LiteralExpr ''0.1'')\<rparr>
      (sample_SamplerState, sample_analyzer) =
     (sample_SamplerState
        \<lparr>borderColor := [Finite (13421773 / 134217728), Finite (13421773 / 134217728),
           Finite (13421773 / 134217728), Finite (13421773 / 134217728)]\<rparr>,
      sample_analyzer) \<and>
   ReflectSamplerValue sample_externals
      \<lparr>sv_name = ''BorderColor'',
       sv_value = InitializerExpr
         [LiteralExpr ''16777217'', LiteralExpr ''0'', LiteralExpr ''0'', LiteralExpr ''1'']\<rparr>
      (sample_SamplerState, sample_analyzer) =
     (sample_SamplerState\<lparr>borderColor := [Finite 16777216, Finite 0, Finite 0, Finite 1]\<rparr>,
      sample_analyzer) \<and>
   ReflectSamplerValue sample_externals
      \<lparr>sv_name = ''BorderColor'',
       sv_value = InitializerExpr [LiteralExpr ''0'', LiteralExpr ''0'', LiteralExpr ''1'']\<rparr>
      (sample_SamplerState, sample_analyzer\<lparr>enableWarnings' := True\<rparr>) =
     (sample_SamplerState,
      sample_analyzer\<lparr>enableWarnings' := True,
         reportHandler' := [R_FailedToInitializeSamplerValue R_InvalidArgCount ''BorderColor'']\<rparr>)"
proof -
  have folded: "EvaluateConstExprFloat sample_externals (LiteralExpr ''0'') = Finite 0"
    "EvaluateConstExprFloat sample_externals (LiteralExpr ''1'') = Finite 1"
    "EvaluateConstExprFloat sample_externals (LiteralExpr ''0.5'') = Finite (1 / 2)"
    "EvaluateConstExprFloat sample_externals (LiteralExpr ''0.1'') =
       Finite (13421773 / 134217728)"
    "EvaluateConstExprFloat sample_externals (LiteralExpr ''16777217'') = Finite 16777216"
    using static_cast_float_zero static_cast_float_exact static_cast_float_rounds
    by (simp_all add: EvaluateConstExprFloat_def EvaluateConstExpr_def sample_externals_def
        sample_literals_def zero_c_float_def)
  have w1: "ReflectSamplerValue sample_externals
      \<lparr>sv_name = ''BorderColor'',
       sv_value = CallExpr (Some (TypeDenoter True))
         [LiteralExpr ''0'', LiteralExpr ''0'', LiteralExpr ''0'', LiteralExpr ''1'']\<rparr>
      (sample_SamplerState, sample_analyzer) =
     (sample_SamplerState\<lparr>borderColor := [Finite 0, Finite 0, Finite 0, Finite 1]\<rparr>,
      sample_analyzer)"
    using folded
      borderColor_shapes [where v = "\<lparr>sv_name = ''BorderColor'',
          sv_value = CallExpr (Some (TypeDenoter True))
            [LiteralExpr ''0'', LiteralExpr ''0'', LiteralExpr ''0'', LiteralExpr ''1'']\<rparr>"
        and td = "TypeDenoter True" and ?e0.0 = "LiteralExpr ''0''" and ?e1.0 = "LiteralExpr ''0''"
        and ?e2.0 = "LiteralExpr ''0''" and ?e3.0 = "LiteralExpr ''1''"
        and ext = sample_externals and st = sample_SamplerState and a = sample_analyzer]
    by simp
  have w2: "ReflectSamplerValue sample_externals
      \<lparr>sv_name = ''BorderColor'', sv_value = CastExpr (LiteralExpr ''0.5'')\<rparr>
      (sample_SamplerState, sample_analyzer) =
     (sample_SamplerState
        \<lparr>borderColor := [Finite (1 / 2), Finite (1 / 2), Finite (1 / 2), Finite (1 / 2)]\<rparr>,
      sample_analyzer)"
    using folded
      borderColor_shapes [where v = "\<lparr>sv_name = ''BorderColor'',
          sv_value = CastExpr (LiteralExpr ''0.5'')\<rparr>"
        and e = "LiteralExpr ''0.5''"
        and ext = sample_externals and st = sample_SamplerState and a = sample_analyzer]
    by simp
  have w3: "ReflectSamplerValue sample_externals
      \<lparr>sv_name = ''BorderColor'', sv_value = CastExpr (LiteralExpr ''0.1'')\<rparr>
      (sample_SamplerState, sample_analyzer) =
     (sample_SamplerState
        \<lparr>borderColor := [Finite (13421773 / 134217728), Finite (13421773 / 134217728),
           Finite (13421773 / 134217728), Finite (13421773 / 134217728)]\<rparr>,
      sample_analyzer)"
    using folded
      borderColor_shapes [where v = "\<lparr>sv_name = ''BorderColor'',
          sv_value = CastExpr (LiteralExpr ''0.1'')\<rparr>"
        and e = "LiteralExpr ''0.1''"
        and ext = sample_externals and st = sample_SamplerState and a = sample_analyzer]
    by simp
  have w4: "ReflectSamplerValue sample_externals
      \<lparr>sv_name = ''BorderColor'',
       sv_value = InitializerExpr
         [LiteralExpr ''16777217'', LiteralExpr ''0'', LiteralExpr ''0'', LiteralExpr ''1'']\<rparr>
      (sample_SamplerState, sample_analyzer) =
     (sample_SamplerState\<lparr>borderColor := [Finite 16777216, Finite 0, Finite 0, Finite 1]\<rparr>,
      sample_analyzer)"
    using folded
      borderColor_shapes [where v = "\<lparr>sv_name = ''BorderColor'',
          sv_value = InitializerExpr
            [LiteralExpr ''16777217'', LiteralExpr ''0'', LiteralExpr ''0'', LiteralExpr ''1'']\<rparr>"
        and ?e0.0 = "LiteralExpr ''16777217''" and ?e1.0 = "LiteralExpr ''0''"
        and ?e2.0 = "LiteralExpr ''0''" and ?e3.0 = "LiteralExpr ''1''"
        and ext = sample_externals and st = sample_SamplerState and a = sample_analyzer]
    by simp
  have w5: "ReflectSamplerValue sample_externals
      \<lparr>sv_name = ''BorderColor'',
       sv_value = InitializerExpr [LiteralExpr ''0'', LiteralExpr ''0'', LiteralExpr ''1'']\<rparr>
      (sample_SamplerState, sample_analyzer\<lparr>enableWarnings' := True\<rparr>) =
     (sample_SamplerState,
      sample_analyzer\<lparr>enableWarnings' := True,
         reportHandler' := [R_FailedToInitializeSamplerValue R_InvalidArgCount ''BorderColor'']\<rparr>)"
    using
      borderColor_shapes [where v = "\<lparr>sv_name = ''BorderColor'',
          sv_value = InitializerExpr [LiteralExpr ''0'', LiteralExpr ''0'', LiteralExpr ''1'']\<rparr>"
        and es = "[LiteralExpr ''0'', LiteralExpr ''0'', LiteralExpr ''1'']"
        and ext = sample_externals and st = sample_SamplerState
        and a = "sample_analyzer\<lparr>enableWarnings' := True\<rparr>"]
    by (simp add: sample_analyzer_def)
  from w1 w2 w3 w4 w5 show ?thesis by simp
qed

text \<open>
  C2 as stated fails: a \<^verbatim>\<open>BorderColor\<close> value of any other expression shape is not
  reported. With warnings enabled, reflecting the sample program whose only sampler
  assigns an expression of another kind to \<^verbatim>\<open>BorderColor\<close> leaves the report sink
  empty; so does a literal value.
\<close>

theorem borderColor_other_shape_not_reported:
  "reportHandler' (Reflect sample_externals sample_analyzer sample_border_program FragmentShader
      ReflectionData_default True) = [] \<and>
   reportHandler' (snd (ReflectSamplerValue sample_externals
      \<lparr>sv_name = ''BorderColor'', sv_value = LiteralExpr ''1''\<rparr>
      (sample_SamplerState, sample_analyzer\<lparr>enableWarnings' := True\<rparr>))) = []"
  by (simp add: sample_defs analyzer_defs)

subsection \<open>C10: every visited sampler declaration is recorded\<close>

lemma ReflectSamplerValue_unrecognized:
  assumes "sv_name v \<notin> {''MipLODBias'', ''MaxAnisotropy'', ''MinLOD'', ''MaxLOD'', ''Filter'',
             ''AddressU'', ''AddressV'', ''AddressW'', ''ComparisonFunc'', ''BorderColor''}"
  shows "ReflectSamplerValue ext v sa = sa"
  using assms by (cases "sv_value v") (simp_all add: ReflectSamplerValue_def)

lemma fold_ReflectSamplerValue_unrecognized:
  assumes "\<forall>v \<in> set vs. sv_name v \<notin> {''MipLODBias'', ''MaxAnisotropy'', ''MinLOD'', ''MaxLOD'',
             ''Filter'', ''AddressU'', ''AddressV'', ''AddressW'', ''ComparisonFunc'', ''BorderColor''}"
  shows "fold (ReflectSamplerValue ext) vs sa = sa"
proof -
  have "fold (ReflectSamplerValue ext) vs sa = sa \<and> True"
  proof (rule fold_invariant [where P = "\<lambda>x. x = sa \<and> True"])
    show "sa = sa \<and> True" by simp
  next
    fix x b
    assume "x \<in> set vs" and "b = sa \<and> True"
    with assms show "ReflectSamplerValue ext x b = sa \<and> True"
      using ReflectSamplerValue_unrecognized [of x ext b] by blast
  qed
  then show ?thesis by simp
qed

text \<open>
  C10. Visiting a sampler declaration changes the reflection data in exactly one place:
  the entry of \<open>samplerStates\<close> under the declared name, which becomes the state built
  from the value list. With an empty value list, or when no value has a recognized name,
  that state is the default state. When a second sampler declaration with the same name
  is visited afterwards, the entry holds the state of the second one.
\<close>

theorem sampler_decl_recorded:
  "data' (Visit ext (AST_SamplerDecl sd) a) =
     (data' a)\<lparr>samplerStates := (samplerStates (data' a))
        (sd_ident sd \<mapsto>
           fst (fold (ReflectSamplerValue ext) (samplerValues sd) (SamplerState_default ext, a)))\<rparr> \<and>
   (samplerValues sd = [] \<longrightarrow>
      samplerStates (data' (Visit ext (AST_SamplerDecl sd) a)) =
        (samplerStates (data' a))(sd_ident sd \<mapsto> SamplerState_default ext)) \<and>
   ((\<forall>v \<in> set (samplerValues sd).
        sv_name v \<notin> {''MipLODBias'', ''MaxAnisotropy'', ''MinLOD'', ''MaxLOD'', ''Filter'',
          ''AddressU'', ''AddressV'', ''AddressW'', ''ComparisonFunc'', ''BorderColor''}) \<longrightarrow>
      samplerStates (data' (Visit ext (AST_SamplerDecl sd) a)) =
        (samplerStates (data' a))(sd_ident sd \<mapsto> SamplerState_default ext)) \<and>
   (sd_ident sd2 = sd_ident sd \<longrightarrow>
      samplerStates (data' (Visit ext (AST_SamplerDecl sd2) (Visit ext (AST_SamplerDecl sd) a))) =
        (samplerStates (data' a))
          (sd_ident sd \<mapsto>
             fst (fold (ReflectSamplerValue ext) (samplerValues sd2) (SamplerState_default ext, a))))"
proof (intro conjI impI)
  show "data' (Visit ext (AST_SamplerDecl sd) a) =
     (data' a)\<lparr>samplerStates := (samplerStates (data' a))
        (sd_ident sd \<mapsto>
           fst (fold (ReflectSamplerValue ext) (samplerValues sd) (SamplerState_default ext, a)))\<rparr>"
    by (simp add: VisitSamplerDecl_data)
next
  assume "samplerValues sd = []"
  then show "samplerStates (data' (Visit ext (AST_SamplerDecl sd) a)) =
        (samplerStates (data' a))(sd_ident sd \<mapsto> SamplerState_default ext)"
    by (simp add: VisitSamplerDecl_data)
next
  assume "\<forall>v \<in> set (samplerValues sd).
        sv_name v \<notin> {''MipLODBias'', ''MaxAnisotropy'', ''MinLOD'', ''MaxLOD'', ''Filter'',
          ''AddressU'', ''AddressV'', ''AddressW'', ''ComparisonFunc'', ''BorderColor''}"
  then have "fold (ReflectSamplerValue ext) (samplerValues sd) (SamplerState_default ext, a) =
      (SamplerState_default ext, a)"
    by (rule fold_ReflectSamplerValue_unrecognized)
  then show "samplerStates (data' (Visit ext (AST_SamplerDecl sd) a)) =
        (samplerStates (data' a))(sd_ident sd \<mapsto> SamplerState_default ext)"
    by (simp add: VisitSamplerDecl_data)
next
  assume same: "sd_ident sd2 = sd_ident sd"
  have "fst (fold (ReflectSamplerValue ext) (samplerValues sd2)
              (SamplerState_default ext, VisitSamplerDecl ext sd a)) =
        fst (fold (ReflectSamplerValue ext) (samplerValues sd2) (SamplerState_default ext, a))"
    by (rule fold_ReflectSamplerValue_state)
  with same show "samplerStates (data' (Visit ext (AST_SamplerDecl sd2) (Visit ext (AST_SamplerDecl sd) a))) =
        (samplerStates (data' a))
          (sd_ident sd \<mapsto>
             fst (fold (ReflectSamplerValue ext) (samplerValues sd2) (SamplerState_default ext, a)))"
    by (simp add: VisitSamplerDecl_data)
qed

theorem sampler_decl_recorded_witness:
  "samplerStates (data' (Visit sample_externals
      (AST_SamplerDecl \<lparr>sd_ident = ''s'', sd_isReachable = True, samplerValues = []\<rparr>)
      sample_analyzer)) =
     [''s'' \<mapsto> sample_SamplerState] \<and>
   samplerStates (data' (Visit sample_externals
      (AST_SamplerDecl \<lparr>sd_ident = ''s'', sd_isReachable = True,
         samplerValues = [\<lparr>sv_name = ''Unknown'', sv_value = LiteralExpr ''1''\<rparr>]\<rparr>)
      sample_analyzer)) =
     [''s'' \<mapsto> sample_SamplerState] \<and>
   samplerStates (data' (Visit sample_externals
      (AST_SamplerDecl \<lparr>sd_ident = ''linearSampler'', sd_isReachable = True, samplerValues = []\<rparr>)
      (Visit sample_externals (AST_SamplerDecl sample_sampler) sample_analyzer))) =
     [''linearSampler'' \<mapsto> sample_SamplerState] \<and>
   data' (Visit sample_externals (AST_SamplerDecl sample_sampler) sample_analyzer) =
     ReflectionData_default
       \<lparr>samplerStates := [''linearSampler'' \<mapsto> sample_SamplerState\<lparr>addressU := 1\<rparr>]\<rparr>"
proof -
  have init: "samplerStates (ReflectionData_default :: (nat, nat, nat) ReflectionData) = Map.empty"
    "SamplerState_default sample_externals = sample_SamplerState"
    "data' sample_analyzer = ReflectionData_default"
    by (simp_all add: sample_analyzer_def sample_externals_def ReflectionData_default_def)
  have w1: "samplerStates (data' (Visit sample_externals
      (AST_SamplerDecl \<lparr>sd_ident = ''s'', sd_isReachable = True, samplerValues = []\<rparr>)
      sample_analyzer)) = [''s'' \<mapsto> sample_SamplerState]"
    using sampler_decl_recorded [THEN conjunct2, THEN conjunct1, of
        "\<lparr>sd_ident = ''s'', sd_isReachable = True, samplerValues = []\<rparr>"
        sample_externals sample_analyzer]
    by (simp add: init del: Visit.simps)
  have w2: "samplerStates (data' (Visit sample_externals
      (AST_SamplerDecl \<lparr>sd_ident = ''s'', sd_isReachable = True,
         samplerValues = [\<lparr>sv_name = ''Unknown'', sv_value = LiteralExpr ''1''\<rparr>]\<rparr>)
      sample_analyzer)) = [''s'' \<mapsto> sample_SamplerState]"
    using sampler_decl_recorded [THEN conjunct2, THEN conjunct2, THEN conjunct1, of
        "\<lparr>sd_ident = ''s'', sd_isReachable = True,
           samplerValues = [\<lparr>sv_name = ''Unknown'', sv_value = LiteralExpr ''1''\<rparr>]\<rparr>"
        sample_externals sample_analyzer]
    by (simp add: init del: Visit.simps)
  have w3: "samplerStates (data' (Visit sample_externals
      (AST_SamplerDecl \<lparr>sd_ident = ''linearSampler'', sd_isReachable = True, samplerValues = []\<rparr>)
      (Visit sample_externals (AST_SamplerDecl sample_sampler) sample_analyzer))) =
     [''linearSampler'' \<mapsto> sample_SamplerState]"
    using sampler_decl_recorded [THEN conjunct2, THEN conjunct2, THEN conjunct2, of
        "\<lparr>sd_ident = ''linearSampler'', sd_isReachable = True, samplerValues = []\<rparr>"
        sample_sampler sample_externals sample_analyzer]
    by (simp add: init sample_sampler_def del: Visit.simps)
  have name: "sd_ident sample_sampler = ''linearSampler''"
    by (simp add: sample_sampler_def)
  have built: "fst (fold (ReflectSamplerValue sample_externals) (samplerValues sample_sampler)
      (SamplerState_default sample_externals, sample_analyzer)) =
      sample_SamplerState\<lparr>addressU := 1\<rparr>"
    by (simp add: sample_defs analyzer_defs)
  have w4: "data' (Visit sample_externals (AST_SamplerDecl sample_sampler) sample_analyzer) =
     ReflectionData_default
       \<lparr>samplerStates := [''linearSampler'' \<mapsto> sample_SamplerState\<lparr>addressU := 1\<rparr>]\<rparr>"
    using built
      sampler_decl_recorded [THEN conjunct1, of sample_externals sample_sampler sample_analyzer]
    by (simp add: init name del: Visit.simps)
  from w1 w2 w3 w4 show ?thesis by (simp del: Visit.simps)
qed

subsection \<open>C5: the binding slot of a reflected buffer\<close>

lemma find_first_match:
  assumes "\<forall>q \<in> set pre. \<not> P q" and "P r"
  shows "find P (pre @ r # post) = Some r"
  using assms by (induction pre) simp_all

text \<open>
  C5. The binding point of a register list is the slot of the (first) register whose
  target is the active shader target, and \<open>-1\<close> when no register has that target. The
  entry appended for a reachable constant buffer, and each entry appended for a reachable
  buffer declaration of a reachable statement, carries the binding point of the
  declaration's register list.
\<close>

theorem bindingSlot_resolution:
  "((\<forall>r \<in> set rs. shaderTarget r \<noteq> shaderTarget' a) \<longrightarrow> GetBindingPoint a rs = - 1) \<and>
   ((\<forall>q \<in> set pre. shaderTarget q \<noteq> shaderTarget' a) \<and> shaderTarget r = shaderTarget' a \<longrightarrow>
      GetBindingPoint a (pre @ r # post) = slot r) \<and>
   (ub_isReachable ub \<longrightarrow>
      constantBuffers (data' (Visit ext (AST_UniformBufferDecl ub) a)) =
        constantBuffers (data' a) @
          [\<lparr>ident = ub_ident ub, location = GetBindingPoint a (ub_slotRegisters ub)\<rparr>]) \<and>
   (bds_isReachable s \<and> IsTextureBufferType ext (bufferType s) \<longrightarrow>
      textures (data' (Visit ext (AST_BufferDeclStmnt s) a)) =
        textures (data' a) @
          map (\<lambda>d. \<lparr>ident = bd_ident d, location = GetBindingPoint a (bd_slotRegisters d)\<rparr>)
            (filter bd_isReachable (bufferDecls s))) \<and>
   (bds_isReachable s \<and> \<not> IsTextureBufferType ext (bufferType s) \<longrightarrow>
      storageBuffers (data' (Visit ext (AST_BufferDeclStmnt s) a)) =
        storageBuffers (data' a) @
          map (\<lambda>d. \<lparr>ident = bd_ident d, location = GetBindingPoint a (bd_slotRegisters d)\<rparr>)
            (filter bd_isReachable (bufferDecls s)))"
proof (intro conjI impI)
  assume "\<forall>r \<in> set rs. shaderTarget r \<noteq> shaderTarget' a"
  then have "find (\<lambda>r. shaderTarget r = shaderTarget' a) rs = None"
    by (simp add: find_None_iff)
  then show "GetBindingPoint a rs = - 1"
    by (simp add: GetBindingPoint_def GetForTarget_def)
next
  assume "(\<forall>q \<in> set pre. shaderTarget q \<noteq> shaderTarget' a) \<and> shaderTarget r = shaderTarget' a"
  then have "find (\<lambda>r. shaderTarget r = shaderTarget' a) (pre @ r # post) = Some r"
    by (intro find_first_match) simp_all
  then show "GetBindingPoint a (pre @ r # post) = slot r"
    by (simp add: GetBindingPoint_def GetForTarget_def)
next
  assume "ub_isReachable ub"
  then show "constantBuffers (data' (Visit ext (AST_UniformBufferDecl ub) a)) =
        constantBuffers (data' a) @
          [\<lparr>ident = ub_ident ub, location = GetBindingPoint a (ub_slotRegisters ub)\<rparr>]"
    by (simp add: VisitUniformBufferDecl_def)
next
  assume "bds_isReachable s \<and> IsTextureBufferType ext (bufferType s)"
  then show "textures (data' (Visit ext (AST_BufferDeclStmnt s) a)) =
        textures (data' a) @
          map (\<lambda>d. \<lparr>ident = bd_ident d, location = GetBindingPoint a (bd_slotRegisters d)\<rparr>)
            (filter bd_isReachable (bufferDecls s))"
    by (simp add: VisitBufferDeclStmnt_lists)
next
  assume "bds_isReachable s \<and> \<not> IsTextureBufferType ext (bufferType s)"
  then show "storageBuffers (data' (Visit ext (AST_BufferDeclStmnt s) a)) =
        storageBuffers (data' a) @
          map (\<lambda>d. \<lparr>ident = bd_ident d, location = GetBindingPoint a (bd_slotRegisters d)\<rparr>)
            (filter bd_isReachable (bufferDecls s))"
    by (simp add: VisitBufferDeclStmnt_lists)
qed

text \<open>
  On the sample register list (vertex 3, fragment 5, fragment 7) the binding point is 5
  for the fragment target and \<open>-1\<close> for the compute target.
\<close>

theorem bindingSlot_resolution_witness:
  "GetBindingPoint (sample_analyzer\<lparr>shaderTarget' := ComputeShader\<rparr>) sample_registers = - 1 \<and>
   GetBindingPoint (sample_analyzer\<lparr>shaderTarget' := FragmentShader\<rparr>) sample_registers = 5 \<and>
   constantBuffers (data' (Visit sample_externals (AST_UniformBufferDecl sample_cbuffer)
      (sample_analyzer\<lparr>shaderTarget' := FragmentShader\<rparr>))) =
     [\<lparr>ident = ''Scene'', location = 5\<rparr>] \<and>
   textures (data' (Visit sample_externals (AST_BufferDeclStmnt sample_textures)
      (sample_analyzer\<lparr>shaderTarget' := FragmentShader\<rparr>))) =
     [\<lparr>ident = ''albedo'', location = 5\<rparr>, \<lparr>ident = ''normals'', location = - 1\<rparr>] \<and>
   storageBuffers (data' (Visit sample_externals (AST_BufferDeclStmnt sample_storage)
      (sample_analyzer\<lparr>shaderTarget' := ComputeShader\<rparr>))) =
     [\<lparr>ident = ''particles'', location = - 1\<rparr>]"
proof -
  have split: "sample_registers =
      [\<lparr>shaderTarget = VertexShader, slot = 3\<rparr>] @ \<lparr>shaderTarget = FragmentShader, slot = 5\<rparr> #
      [\<lparr>shaderTarget = FragmentShader, slot = 7\<rparr>]"
    by (simp add: sample_registers_def)
  have none: "\<forall>r \<in> set sample_registers.
      shaderTarget r \<noteq> shaderTarget' (sample_analyzer\<lparr>shaderTarget' := ComputeShader\<rparr>)"
    by (simp add: sample_registers_def)
  have c: "GetBindingPoint (sample_analyzer\<lparr>shaderTarget' := ComputeShader\<rparr>) sample_registers = - 1"
    using none
      bindingSlot_resolution [where rs = sample_registers
        and a = "sample_analyzer\<lparr>shaderTarget' := ComputeShader\<rparr>"]
    by blast
  have f: "GetBindingPoint (sample_analyzer\<lparr>shaderTarget' := FragmentShader\<rparr>) sample_registers = 5"
    using bindingSlot_resolution [where a = "sample_analyzer\<lparr>shaderTarget' := FragmentShader\<rparr>"
        and pre = "[\<lparr>shaderTarget = VertexShader, slot = 3\<rparr>]"
        and r = "\<lparr>shaderTarget = FragmentShader, slot = 5\<rparr>"
        and post = "[\<lparr>shaderTarget = FragmentShader, slot = 7\<rparr>]"]
    by (simp add: split)
  have e: "GetBindingPoint (sample_analyzer\<lparr>shaderTarget' := FragmentShader\<rparr>) [] = - 1"
    using bindingSlot_resolution [where rs = "[]"
        and a = "sample_analyzer\<lparr>shaderTarget' := FragmentShader\<rparr>"]
    by simp
  show ?thesis
    using c f e
      bindingSlot_resolution [where a = "sample_analyzer\<lparr>shaderTarget' := FragmentShader\<rparr>"
        and ub = sample_cbuffer and s = sample_textures and ext = sample_externals]
      bindingSlot_resolution [where a = "sample_analyzer\<lparr>shaderTarget' := ComputeShader\<rparr>"
        and s = sample_storage and ext = sample_externals]
    by (simp add: sample_cbuffer_def sample_textures_def sample_storage_def sample_externals_def
        sample_analyzer_def ReflectionData_default_def del: Visit.simps)
qed

subsection \<open>C1: unreachable declarations\<close>

lemma ReflectBufferDecl_unreachable:
  "\<not> bd_isReachable d \<Longrightarrow> ReflectBufferDecl ext ast d a = a"
  by (simp add: ReflectBufferDecl_def)

text \<open>
  The visits of a constant buffer declaration and of a buffer declaration statement
  test the reachability flag: visiting one whose flag is false changes nothing, and the
  entries a buffer declaration statement appends to \<open>textures\<close> or \<open>storageBuffers\<close> are
  those of its reachable buffer declarations only.
\<close>

lemma unreachable_buffers_not_reflected:
  "(\<not> ub_isReachable ub \<longrightarrow> Visit ext (AST_UniformBufferDecl ub) a = a) \<and>
   (\<not> bds_isReachable s \<longrightarrow> Visit ext (AST_BufferDeclStmnt s) a = a) \<and>
   ((\<forall>d \<in> set (bufferDecls s). \<not> bd_isReachable d) \<longrightarrow> Visit ext (AST_BufferDeclStmnt s) a = a) \<and>
   textures (data' (Visit ext (AST_BufferDeclStmnt s) a)) =
     textures (data' a) @
       (if bds_isReachable s \<and> IsTextureBufferType ext (bufferType s)
        then map (\<lambda>d. \<lparr>ident = bd_ident d, location = GetBindingPoint a (bd_slotRegisters d)\<rparr>)
               (filter bd_isReachable (bufferDecls s))
        else []) \<and>
   storageBuffers (data' (Visit ext (AST_BufferDeclStmnt s) a)) =
     storageBuffers (data' a) @
       (if bds_isReachable s \<and> \<not> IsTextureBufferType ext (bufferType s)
        then map (\<lambda>d. \<lparr>ident = bd_ident d, location = GetBindingPoint a (bd_slotRegisters d)\<rparr>)
               (filter bd_isReachable (bufferDecls s))
        else [])"
proof (intro conjI impI)
  assume "\<not> ub_isReachable ub"
  then show "Visit ext (AST_UniformBufferDecl ub) a = a"
    by (simp add: VisitUniformBufferDecl_def)
next
  assume "\<not> bds_isReachable s"
  then show "Visit ext (AST_BufferDeclStmnt s) a = a"
    by (simp add: VisitBufferDeclStmnt_def)
next
  assume dead: "\<forall>d \<in> set (bufferDecls s). \<not> bd_isReachable d"
  have "fold (ReflectBufferDecl ext s) (bufferDecls s) a = a \<and> True"
    by (rule fold_invariant [where P = "\<lambda>x. x = a \<and> True"])
       (use dead in \<open>simp_all add: ReflectBufferDecl_unreachable\<close>)
  then show "Visit ext (AST_BufferDeclStmnt s) a = a"
    by (simp add: VisitBufferDeclStmnt_def)
next
  show "textures (data' (Visit ext (AST_BufferDeclStmnt s) a)) =
     textures (data' a) @
       (if bds_isReachable s \<and> IsTextureBufferType ext (bufferType s)
        then map (\<lambda>d. \<lparr>ident = bd_ident d, location = GetBindingPoint a (bd_slotRegisters d)\<rparr>)
               (filter bd_isReachable (bufferDecls s))
        else [])"
    by (simp add: VisitBufferDeclStmnt_lists)
next
  show "storageBuffers (data' (Visit ext (AST_BufferDeclStmnt s) a)) =
     storageBuffers (data' a) @
       (if bds_isReachable s \<and> \<not> IsTextureBufferType ext (bufferType s)
        then map (\<lambda>d. \<lparr>ident = bd_ident d, location = GetBindingPoint a (bd_slotRegisters d)\<rparr>)
               (filter bd_isReachable (bufferDecls s))
        else [])"
    by (simp add: VisitBufferDeclStmnt_lists)
qed


lemma unreachable_buffers_not_reflected_sample:
  "\<not> ub_isReachable sample_dead_cbuffer \<and>
   Visit sample_externals (AST_UniformBufferDecl sample_dead_cbuffer) sample_analyzer =
     sample_analyzer \<and>
   \<not> bds_isReachable sample_dead_textures \<and>
   Visit sample_externals (AST_BufferDeclStmnt sample_dead_textures) sample_analyzer =
     sample_analyzer \<and>
   textures (data' (Visit sample_externals (AST_BufferDeclStmnt sample_textures)
      (sample_analyzer\<lparr>shaderTarget' := FragmentShader\<rparr>))) =
     [\<lparr>ident = ''albedo'', location = 5\<rparr>, \<lparr>ident = ''normals'', location = - 1\<rparr>] \<and>
   storageBuffers (data' (Visit sample_externals (AST_BufferDeclStmnt sample_textures)
      (sample_analyzer\<lparr>shaderTarget' := FragmentShader\<rparr>))) = []"
proof -
  have dead: "\<not> ub_isReachable sample_dead_cbuffer" "\<not> bds_isReachable sample_dead_textures"
    by (simp_all add: sample_dead_cbuffer_def sample_dead_textures_def)
  have bp: "GetBindingPoint (sample_analyzer\<lparr>shaderTarget' := FragmentShader\<rparr>) sample_registers = 5"
    "GetBindingPoint (sample_analyzer\<lparr>shaderTarget' := FragmentShader\<rparr>) [] = - 1"
    by (simp_all add: GetBindingPoint_def GetForTarget_def sample_registers_def)
  show ?thesis
    using dead bp
      unreachable_buffers_not_reflected [where ub = sample_dead_cbuffer
        and s = sample_dead_textures and a = sample_analyzer and ext = sample_externals]
      unreachable_buffers_not_reflected [where s = sample_textures and ext = sample_externals
        and a = "sample_analyzer\<lparr>shaderTarget' := FragmentShader\<rparr>"]
    by (simp add: sample_textures_def sample_externals_def sample_analyzer_def
        ReflectionData_default_def del: Visit.simps)
qed

text \<open>
  C1. A declaration whose reachability flag is false is to have no entry in
  \<open>constantBuffers\<close>, \<open>textures\<close>, \<open>storageBuffers\<close> or \<open>samplerStates\<close>. The visit of a
  sampler declaration breaks this: unlike its two siblings above, \<open>VisitSamplerDecl\<close>
  does not read the flag. The sample resources hold a sampler declaration whose flag is
  false (in the disabled part of the tree, which the program visit walks as well); after
  \<open>Reflect\<close> its state is in \<open>samplerStates\<close>.
\<close>

theorem unreachable_sampler_is_reflected:
  "\<not> sd_isReachable sample_dead_sampler \<and>
   disabledAST sample_resources = [AST_Other [AST_SamplerDecl sample_dead_sampler]] \<and>
   samplerStates (data' (Reflect sample_externals sample_analyzer sample_resources FragmentShader
      ReflectionData_default True)) (sd_ident sample_dead_sampler) =
     Some (sample_SamplerState\<lparr>filter_s := 0\<rparr>)"
  by (simp add: sample_defs analyzer_defs)

end
